theory Spec2Isabelle
  imports Main "HOL-Library.Word"
begin

unbundle bit_operations_syntax

section \<open>The table parser of dmfs-table.c\<close>

text \<open>
  The development follows \<^verbatim>\<open>src/driver/device-mapper/dmfs-table.c\<close>: the tokenizer
  \<^verbatim>\<open>next_token\<close>, the line parser \<^verbatim>\<open>dmfs_parse_line\<close>, the copy loop \<^verbatim>\<open>dmfs_copy\<close>,
  the per-page assembler \<^verbatim>\<open>dmfs_parse_page\<close> and the driver \<^verbatim>\<open>dmfs_parse\<close>.

  Conventions of the embedding.
  \<^item> Bytes are \<^typ>\<open>char\<close>; a C string is the run of bytes before the first NUL.
  \<^item> \<^verbatim>\<open>offset_t\<close>, \<^verbatim>\<open>unsigned long\<close> and \<^verbatim>\<open>loff_t\<close> values are 64-bit words (an LP64
    kernel); the line counter (\<^verbatim>\<open>int num\<close>, passed on as \<^verbatim>\<open>unsigned\<close>) is a 32-bit word.
  \<^item> Byte counts inside one page (\<^verbatim>\<open>copied\<close>, \<^verbatim>\<open>len\<close>, \<^verbatim>\<open>*tmpl\<close>) are natural numbers;
    \<^verbatim>\<open>dstlen\<close> is an \<^typ>\<open>int\<close> as in the source, whose loop runs while it is not
    zero, also when it is negative.
  \<^item> Memory reached through a pointer (the scratch page \<^verbatim>\<open>tmp\<close>, the array \<^verbatim>\<open>t->highs\<close>)
    is a function from offsets to values.
  \<^item> Calls that leave this file (the target-type registry, constructors and destructors,
    the table object, the page cache, the allocator, \<^verbatim>\<open>printk\<close>) are appended to a trace
    in the order the source makes them; what they return is a parameter (\<open>env\<close>).
  \<^item> \<^verbatim>\<open>PAGE_SIZE\<close>, \<^verbatim>\<open>PAGE_CACHE_SIZE\<close> and \<^verbatim>\<open>PAGE_CACHE_SHIFT\<close> come from kernel headers:
    the shift is the parameter \<open>sh\<close>, and both sizes are \<open>2 ^ sh\<close>.
  \<^item> The source has two slips a compiler rejects: a stray parenthesis in
    \<^verbatim>\<open>if (rv == 0))\<close>, read here as \<^verbatim>\<open>if (rv == 0)\<close>, and the call of \<^verbatim>\<open>dmfs_parse_page\<close>
    in \<^verbatim>\<open>dmfs_parse\<close> with five of its six arguments, read here with \<^verbatim>\<open>&num\<close>, the
    line counter declared in \<^verbatim>\<open>dmfs_parse\<close>, as the sixth.
\<close>

subsection \<open>Data\<close>

type_synonym offset_t = "64 word"
type_synonym ulong = "64 word"
type_synonym memory = "nat \<Rightarrow> char"

definition NL :: char where "NL = CHR 0x0A"
definition NUL :: char where "NUL = CHR 0x00"

definition PAGE_SIZE :: "nat \<Rightarrow> nat" where
  "PAGE_SIZE sh = 2 ^ sh"

datatype event =
    Get_free_page
  | Create_table
  | Find_page ulong
  | Kmap ulong
  | Page_cache_release "ulong option"
  | Parse_line "32 word" string
  | Get_target_type string
  | Ctr string offset_t offset_t "string option"
  | Add_target offset_t string nat
  | Dtr string nat
  | Put_target_type string
  | Table_complete
  | Put_table
  | Free_page
  | Printk string

text \<open>
  A target type as the parser uses it: its name and its constructor, which receives the
  start, the size and the rest of the line (\<open>None\<close> for a NULL pointer) and returns its
  result code together with the context it built.
\<close>

record target_type =
  tt_name :: string
  tt_ctr :: "offset_t \<Rightarrow> offset_t \<Rightarrow> string option \<Rightarrow> int \<times> nat"

text \<open>
  What the collaborators outside this file answer. The last field is what the kernel's
  \<^verbatim>\<open>page_cache_release\<close> does when it is handed a NULL pointer: whether the call comes
  back at all. The macro is defined in the kernel headers, not in this file.
\<close>

record env =
  free_page_ok :: bool
  free_page_bytes :: memory
  create_table_ok :: bool
  registry :: "string \<Rightarrow> target_type option"
  add_target_rv :: "nat \<Rightarrow> offset_t \<Rightarrow> int"
  release_null_returns :: bool

text \<open>
  The state one parse works on: the fields of \<^verbatim>\<open>struct dm_table\<close> that this file reads
  (\<^verbatim>\<open>num_targets\<close>, \<^verbatim>\<open>highs\<close>), the recorded errors, the trace, and the three locals
  of \<^verbatim>\<open>dmfs_parse\<close> that \<^verbatim>\<open>dmfs_parse_page\<close> updates through pointers: the scratch page
  (\<open>tmp\<close>), its fill length (\<open>rem\<close>, called \<^verbatim>\<open>*tmpl\<close> in \<^verbatim>\<open>dmfs_parse_page\<close>) and the line
  counter (\<open>num\<close>).
\<close>

record pstate =
  num_targets :: nat
  highs :: "nat \<Rightarrow> offset_t"
  errors :: "(32 word \<times> string) list"
  trace :: "event list"
  tmp :: memory
  rem :: nat
  num :: "32 word"

definition emit :: "event \<Rightarrow> pstate \<Rightarrow> pstate" where
  "emit e st = st\<lparr>trace := trace st @ [e]\<rparr>"

subsection \<open>Collaborators declared in dm.h\<close>

text \<open>
  Modelled from the spec: \<^verbatim>\<open>dmfs_add_error\<close> is declared in dm.h and defined outside
  this file. The spec's ErrorSink accumulates (line-number, message) diagnostics in
  declaration order without halting the parse.
\<close>

definition dmfs_add_error :: "pstate \<Rightarrow> 32 word \<Rightarrow> string \<Rightarrow> pstate" where
  "dmfs_add_error st n msg = st\<lparr>errors := errors st @ [(n, msg)]\<rparr>"

text \<open>
  Modelled from the spec: \<^verbatim>\<open>dm_table_add_target\<close> is declared in dm.h and defined outside
  this file. The spec's TableBuilder has \<open>append(high, target_type, context)\<close> answering
  success or failure; on success the range joins the sequence and the count of targets
  grows by one, on failure the table is left as it was. Whether it succeeds is the
  environment's answer.
\<close>

definition dm_table_add_target ::
    "env \<Rightarrow> pstate \<Rightarrow> offset_t \<Rightarrow> target_type \<Rightarrow> nat \<Rightarrow> int \<times> pstate" where
  "dm_table_add_target E st high ttype context =
     (let st1 = emit (Add_target high (tt_name ttype) context) st;
          rv = add_target_rv E (num_targets st) high
      in if rv = 0
         then (0, st1\<lparr>highs := (highs st1)(num_targets st1 := high),
                      num_targets := Suc (num_targets st1)\<rparr>)
         else (rv, st1))"

text \<open>
  Modelled from the spec: \<^verbatim>\<open>dm_table_complete\<close> is declared in dm.h and defined outside
  this file. The spec's \<open>finalize\<close> fails if zero ranges were added or if any parse error
  was recorded.
\<close>

definition dm_table_complete :: "pstate \<Rightarrow> int" where
  "dm_table_complete st = (if num_targets st = 0 \<or> errors st \<noteq> [] then - 1 else 0)"

subsection \<open>Library routines of the kernel\<close>

text \<open>
  \<^verbatim>\<open>strsep(p, " \t")\<close>: a NULL cursor gives NULL; otherwise the token runs up to the
  first delimiter, and the cursor moves behind that delimiter, or becomes NULL when
  there is none. The result is the pair of the token and the new cursor.

  The kernel's \<^verbatim>\<open>strsep\<close> also writes a NUL over the delimiter it stops at, to end the
  token. The tokens here are values, so that write is not modelled: the field \<open>tmp\<close>
  of a state is the scratch page as \<open>dmfs_copy\<close> filled it, without the NULs that
  \<^verbatim>\<open>strsep\<close> puts into a line already handed to the line parser. Those bytes are not
  read again: the next line is copied to the start of the page and read up to its own
  terminating NUL.
\<close>

definition is_delim :: "char \<Rightarrow> bool" where
  "is_delim c = (c = CHR '' '' \<or> c = CHR 0x09)"

definition strsep :: "string option \<Rightarrow> string option \<times> string option" where
  "strsep p =
     (case p of
        None \<Rightarrow> (None, None)
      | Some s \<Rightarrow>
          (case dropWhile (\<lambda>c. \<not> is_delim c) s of
             [] \<Rightarrow> (Some s, None)
           | _ # r \<Rightarrow> (Some (takeWhile (\<lambda>c. \<not> is_delim c) s), Some r)))"

text \<open>
  \<^verbatim>\<open>simple_strtoul(tok, NULL, 10)\<close>: the leading decimal digits, accumulated in an
  \<^verbatim>\<open>unsigned long\<close>; no digit at all gives 0.
\<close>

definition is_digit :: "char \<Rightarrow> bool" where
  "is_digit c = (48 \<le> (of_char c :: nat) \<and> (of_char c :: nat) \<le> 57)"

definition simple_strtoul :: "string \<Rightarrow> ulong" where
  "simple_strtoul cp =
     foldl (\<lambda>result c. result * 10 + of_nat (of_char c - 48)) 0 (takeWhile is_digit cp)"

text \<open>The C string that starts at offset \<open>i\<close>, read in a page with \<open>n\<close> bytes from there on.\<close>

fun cstring :: "memory \<Rightarrow> nat \<Rightarrow> nat \<Rightarrow> string" where
  "cstring m i 0 = []"
| "cstring m i (Suc n) = (if m i = NUL then [] else m i # cstring m (Suc i) n)"

subsection \<open>next_token, start_of_next_range, dmfs_parse_line\<close>

function next_token :: "string option \<Rightarrow> string option \<times> string option" where
  "next_token p =
     (case strsep p of
        (r, p') \<Rightarrow> (if r = Some [] then next_token p' else (r, p')))"
  by pat_completeness auto
termination
  apply (relation "measure (\<lambda>p. case p of None \<Rightarrow> 0 | Some s \<Rightarrow> Suc (length s))")
   apply simp
  subgoal for p
    apply (cases p)
     apply (simp add: strsep_def)
    subgoal for s
      by (cases s) (auto simp: strsep_def split: list.splits if_splits)
    done
  done

definition start_of_next_range :: "pstate \<Rightarrow> offset_t" where
  "start_of_next_range t =
     (if num_targets t \<noteq> 0 then highs t (num_targets t - 1) + 1 else 0)"

text \<open>
  \<^verbatim>\<open>dmfs_parse_line(t, num, str)\<close>. Every \<^verbatim>\<open>goto out\<close> of the source is a call of
  \<open>dmfs_add_error\<close> with the message that was current; the only exit that records no
  error is the \<^verbatim>\<open>return\<close> after a successful \<^verbatim>\<open>dm_table_add_target\<close>.
\<close>

definition dmfs_parse_line :: "env \<Rightarrow> pstate \<Rightarrow> 32 word \<Rightarrow> string \<Rightarrow> pstate" where
  "dmfs_parse_line E t n str =
     (case next_token (Some str) of
        (None, p) \<Rightarrow> dmfs_add_error t n ''No start argument''
      | (Some tok, p) \<Rightarrow>
          (let start = simple_strtoul tok in
           case next_token p of
             (None, p) \<Rightarrow> dmfs_add_error t n ''No size argument''
           | (Some tok, p) \<Rightarrow>
               (let size = simple_strtoul tok in
                if start \<noteq> start_of_next_range t
                then dmfs_add_error t n ''Gap in table''
                else
                  (case next_token p of
                     (None, p) \<Rightarrow> dmfs_add_error t n ''No target type''
                   | (Some tok, p) \<Rightarrow>
                       (let t1 = emit (Get_target_type tok) t in
                        case registry E tok of
                          None \<Rightarrow> dmfs_add_error t1 n ''Target type unknown''
                        | Some ttype \<Rightarrow>
                            (case tt_ctr ttype start size p of
                               (rv, context) \<Rightarrow>
                                 (let t2 = emit (Ctr (tt_name ttype) start size p) t1 in
                                  if rv = 0
                                  then
                                    (let high = start + (size - 1) in
                                     case dm_table_add_target E t2 high ttype context of
                                       (arv, t3) \<Rightarrow>
                                         if arv = 0 then t3
                                         else
                                           dmfs_add_error
                                             (emit (Put_target_type (tt_name ttype))
                                               (emit (Dtr (tt_name ttype) context) t3))
                                             n ''Error adding target to table'')
                                  else
                                    dmfs_add_error
                                      (emit (Put_target_type (tt_name ttype)) t2)
                                      n ''This message should never appear (constructor error)'')))))))"

subsection \<open>dmfs_copy and dmfs_parse_page\<close>

text \<open>
  \<^verbatim>\<open>dmfs_copy(dst, dstlen, src, srclen, &flag)\<close>: \<open>m\<close> is the scratch page and \<open>d\<close> the
  offset of \<^verbatim>\<open>dst\<close> in it; the source bytes are a list, whose length is \<^verbatim>\<open>srclen\<close>. The
  result is the page, the number of bytes copied and the flag. A newline is counted,
  stored as NUL and ends the copy.
\<close>

fun dmfs_copy :: "memory \<Rightarrow> nat \<Rightarrow> int \<Rightarrow> char list \<Rightarrow> memory \<times> nat \<times> bool" where
  "dmfs_copy m d dstlen [] = (m, 0, False)"
| "dmfs_copy m d dstlen (c # src) =
     (if dstlen = 0 then (m, 0, False)
      else if c = NL then (m(d := NUL), 1, True)
      else (case dmfs_copy (m(d := c)) (Suc d) (dstlen - 1) src of
              (m', copied, flag) \<Rightarrow> (m', Suc copied, flag)))"

text \<open>
  \<^verbatim>\<open>dmfs_parse_page(t, buf, len, tmp, tmpl, num)\<close>: \<open>buf\<close> is the list of the \<^verbatim>\<open>len\<close> bytes
  of the chunk. The body of the \<^verbatim>\<open>do ... while (len > 0)\<close> loop runs once per call of
  this function. The line handed to \<open>dmfs_parse_line\<close> is the C string at the start of
  the scratch page; the call is logged as \<open>Parse_line\<close>.
\<close>

function dmfs_parse_page :: "env \<Rightarrow> nat \<Rightarrow> pstate \<Rightarrow> char list \<Rightarrow> int \<times> pstate" where
  "dmfs_parse_page E sh st buf =
     (case dmfs_copy (tmp st) (rem st) (int (PAGE_SIZE sh) - int (rem st) - 1) buf of
        (m, copied, flag) \<Rightarrow>
          if rem st + copied = PAGE_SIZE sh - 1
          then (- 1, dmfs_add_error (st\<lparr>tmp := m\<rparr>) (num st) ''Line too long'')
          else
            (let st1 = st\<lparr>tmp := m, rem := copied\<rparr>;
                 st2 = (if flag
                        then (let str = cstring (tmp st1) 0 (PAGE_SIZE sh);
                                  st' = dmfs_parse_line E (emit (Parse_line (num st1) str) st1)
                                          (num st1) str
                              in st'\<lparr>num := num st' + 1, rem := 0\<rparr>)
                        else st1)
             in if drop copied buf \<noteq> [] then dmfs_parse_page E sh st2 (drop copied buf)
                else (0, st2)))"
  by pat_completeness auto
termination
proof (relation "measure (\<lambda>(E, sh, st, buf). length buf)", goal_cases)
  case 1
  show ?case by simp
next
  case (2 E sh st buf m p copied flag st1 st2)
  have pos: "0 < fst (snd (dmfs_copy mm d dstlen src))" if "dstlen \<noteq> 0" "src \<noteq> []"
    for mm d dstlen src
    using that by (cases src) (auto split: prod.splits)
  have zero: "fst (snd (dmfs_copy mm d 0 src)) = 0" for mm d src
    by (cases src) auto
  from 2 have c:
    "fst (snd (dmfs_copy (tmp st) (rem st) (int (PAGE_SIZE sh) - int (rem st) - 1) buf)) = copied"
    by (metis fst_conv snd_conv)
  from 2 have ne: "buf \<noteq> []" and nl: "rem st + copied \<noteq> PAGE_SIZE sh - 1"
    by auto
  have "0 < copied"
  proof (cases "int (PAGE_SIZE sh) - int (rem st) - 1 = 0")
    case True
    with c zero [of "tmp st" "rem st" buf] have "copied = 0" by simp
    with True nl show ?thesis by simp
  next
    case False
    from pos [OF False ne, of "tmp st" "rem st"] c show ?thesis by simp
  qed
  with ne show ?case by simp
qed

subsection \<open>dmfs_parse\<close>

text \<open>
  A page of the page cache: whether it is up to date, and its bytes (\<^verbatim>\<open>PAGE_CACHE_SIZE\<close>
  of them). \<open>pages index\<close> is what \<^verbatim>\<open>__find_page_nolock\<close> finds at \<open>index\<close>, \<open>None\<close> for
  NULL. \<^verbatim>\<open>page_cache_get\<close>, \<^verbatim>\<open>kunmap\<close> and the spin lock are called on a page that is
  there, change nothing the parser reads and are not in the trace.

  \<^verbatim>\<open>page_cache_release(pg)\<close> stands behind the block guarded by \<^verbatim>\<open>if (pg)\<close>, so every pass
  that reaches it calls it, with the page that was found or with NULL when none was
  found. The call is logged as \<open>Page_cache_release\<close>, with \<open>Some index\<close> for the page
  found at \<open>index\<close> and \<open>None\<close> for NULL. On a page it comes back; on NULL it comes back
  only if the environment says so, and otherwise the pass, and with it the call of
  \<^verbatim>\<open>dmfs_parse\<close>, ends inside it.
\<close>

record page =
  pg_uptodate :: bool
  pg_data :: "char list"

datatype outcome = Next | Broken | Parse_error | Release_null

text \<open>
  One pass through the body of the \<^verbatim>\<open>do ... while (index != end_index)\<close> loop of
  \<^verbatim>\<open>dmfs_parse\<close>, up to and excluding \<^verbatim>\<open>index++\<close>. The two \<^verbatim>\<open>goto\<close>s leave the body before
  \<^verbatim>\<open>page_cache_release\<close>.
\<close>

definition dmfs_parse_body ::
    "env \<Rightarrow> nat \<Rightarrow> (ulong \<Rightarrow> page option) \<Rightarrow> ulong \<Rightarrow> ulong \<Rightarrow> ulong \<Rightarrow> pstate
       \<Rightarrow> outcome \<times> pstate" where
  "dmfs_parse_body E sh pages end_index end_offset index st =
     (let end = (if index = end_index then unat end_offset else PAGE_SIZE sh);
          st1 = emit (Find_page index) st
      in case pages index of
           None \<Rightarrow>
             (let st2 = emit (Page_cache_release None) st1
              in if release_null_returns E then (Next, st2) else (Release_null, st2))
         | Some pg \<Rightarrow>
             if \<not> pg_uptodate pg then (Broken, st1)
             else
               (case dmfs_parse_page E sh (emit (Kmap index) st1) (take end (pg_data pg)) of
                  (rv, st2) \<Rightarrow>
                    if rv \<noteq> 0 then (Parse_error, st2)
                    else (Next, emit (Page_cache_release (Some index)) st2)))"

text \<open>
  How a call of \<^verbatim>\<open>dmfs_parse\<close> ends: it returns the table, it returns NULL, or it does
  not return because a call it made did not come back.
\<close>

datatype result = Table | Null | No_return

text \<open>
  The code after the loop, and the two labels \<^verbatim>\<open>broken\<close> and \<^verbatim>\<open>parse_error\<close>, each with
  the final state.
\<close>

definition dmfs_parse_finish :: "pstate \<Rightarrow> result \<times> pstate" where
  "dmfs_parse_finish st =
     (let st1 = emit Table_complete (emit Free_page st)
      in if dm_table_complete st = 0 then (Table, st1) else (Null, emit Put_table st1))"

definition dmfs_parse_abort :: "string \<Rightarrow> pstate \<Rightarrow> result \<times> pstate" where
  "dmfs_parse_abort msg st = (Null, emit Put_table (emit Free_page (emit (Printk msg) st)))"

function dmfs_parse_loop ::
    "env \<Rightarrow> nat \<Rightarrow> (ulong \<Rightarrow> page option) \<Rightarrow> ulong \<Rightarrow> ulong \<Rightarrow> ulong \<Rightarrow> pstate
       \<Rightarrow> result \<times> pstate" where
  "dmfs_parse_loop E sh pages end_index end_offset index st =
     (case dmfs_parse_body E sh pages end_index end_offset index st of
        (Next, st') \<Rightarrow>
          if index + 1 \<noteq> end_index
          then dmfs_parse_loop E sh pages end_index end_offset (index + 1) st'
          else dmfs_parse_finish st'
      | (Broken, st') \<Rightarrow> dmfs_parse_abort (''dmfs_parse: Page not uptodate'' @ [NL]) st'
      | (Parse_error, st') \<Rightarrow> dmfs_parse_abort (''dmfs_parse: Parse error'' @ [NL]) st'
      | (Release_null, st') \<Rightarrow> (No_return, st'))"
  by pat_completeness auto
termination
proof (relation "measure (\<lambda>(E, sh, pages, end_index, end_offset, index, st).
                            unat (end_index - (index + 1)))", goal_cases)
  case 1
  show ?case by simp
next
  case (2 E sh pages end_index end_offset index st x y)
  have dec: "unat (w - 1) < unat w" if "w \<noteq> 0" for w :: ulong
    using that by (simp add: unat_minus_one unat_gt_0 [symmetric])
  from 2 have "end_index - (index + 1) \<noteq> 0"
    by simp
  from dec [OF this] have "unat (end_index - (index + 1) - 1) < unat (end_index - (index + 1))" .
  moreover have "end_index - (index + 1 + 1) = end_index - (index + 1) - 1"
    by simp
  ultimately have "unat (end_index - (index + 1 + 1)) < unat (end_index - (index + 1))"
    by (simp only:)
  then show ?case
    by (simp only: in_measure prod.case)
qed

text \<open>
  \<^verbatim>\<open>dmfs_parse(inode)\<close>: \<open>i_size\<close> is \<^verbatim>\<open>inode->i_size\<close> and \<open>pages\<close> the page cache of
  \<^verbatim>\<open>inode->i_mapping\<close>. The table that \<^verbatim>\<open>dm_create_table\<close> returns has no targets and no
  errors.
\<close>

definition init_state :: "env \<Rightarrow> pstate" where
  "init_state E = \<lparr>num_targets = 0, highs = (\<lambda>_. 0), errors = [], trace = [],
                    tmp = free_page_bytes E, rem = 0, num = 0\<rparr>"

definition dmfs_parse :: "env \<Rightarrow> nat \<Rightarrow> (ulong \<Rightarrow> page option) \<Rightarrow> ulong \<Rightarrow> result \<times> pstate" where
  "dmfs_parse E sh pages i_size =
     (let st0 = init_state E
      in if i_size = 0 then (Null, st0)
         else
           (let st1 = emit Get_free_page st0
            in if \<not> free_page_ok E then (Null, st1)
               else
                 (let st2 = emit Create_table st1
                  in if \<not> create_table_ok E then (Null, emit Free_page st2)
                     else
                       (let end_index = drop_bit sh i_size;
                            end_offset = i_size AND (push_bit sh 1 - 1)
                        in dmfs_parse_loop E sh pages end_index end_offset 0 st2))))"

subsection \<open>Auxiliary notions and sample inputs\<close>

text \<open>\<open>store m d xs\<close> is the page \<open>m\<close> after the bytes \<open>xs\<close> were written from offset \<open>d\<close> on.\<close>

fun store :: "memory \<Rightarrow> nat \<Rightarrow> char list \<Rightarrow> memory" where
  "store m d [] = m"
| "store m d (c # cs) = store (m(d := c)) (Suc d) cs"


text \<open>
  The state after \<open>dmfs_parse_page\<close> has copied the line \<open>xs\<close> and its newline behind
  the \<open>rem st\<close> bytes already in the scratch page and has handed the C string at the
  start of the page to \<open>dmfs_parse_line\<close>.
\<close>

definition after_line :: "env \<Rightarrow> nat \<Rightarrow> pstate \<Rightarrow> char list \<Rightarrow> pstate" where
  "after_line E sh st xs =
     (let st1 = st\<lparr>tmp := store (tmp st) (rem st) (xs @ [NUL]), rem := Suc (length xs)\<rparr>;
          str = cstring (tmp st1) 0 (PAGE_SIZE sh);
          st' = dmfs_parse_line E (emit (Parse_line (num st1) str) st1) (num st1) str
      in st'\<lparr>num := num st' + 1, rem := 0\<rparr>)"

text \<open>
  Notions for comparing a chunked run with the run on the whole content.

  \<open>forget_rem\<close> leaves the fill length out of a result of \<open>dmfs_parse_page\<close>: the
  return code, the table, the errors, the calls, the scratch page and the line counter
  remain.

  \<open>inner_chunks_ok\<close>: every chunk between the first and the last holds a newline or at
  least \<^verbatim>\<open>PAGE_SIZE - 1\<close> bytes. The chunks that \<open>dmfs_parse\<close> passes are of this kind:
  behind the first pass every chunk is a whole page.

  \<open>short_lines\<close>: every line is free of newlines and fits the scratch page with room
  to spare, so that it is not too long wherever it starts.

  \<open>parse_lines\<close> is the assembler in the spec's words, for content that is a sequence
  of lines: each line in turn is put at the start of the line buffer and handed to the
  line parser under the running line number, which is then incremented.
\<close>

definition forget_rem :: "int \<times> pstate \<Rightarrow> int \<times> pstate" where
  "forget_rem r = (fst r, (snd r)\<lparr>rem := 0\<rparr>)"

definition inner_chunks_ok :: "nat \<Rightarrow> char list list \<Rightarrow> bool" where
  "inner_chunks_ok sh chunks =
     list_all (\<lambda>c. NL \<in> set c \<or> PAGE_SIZE sh - 1 \<le> length c) (butlast (tl chunks))"



text \<open>
  What a caller of \<open>dmfs_parse\<close> can see of a result: whether a table came back, the
  table, the errors, the calls made and the line counter; not the scratch page, which
  is freed.
\<close>

definition observable ::
    "result \<times> pstate \<Rightarrow>
       result \<times> nat \<times> (nat \<Rightarrow> offset_t) \<times> (32 word \<times> string) list \<times> event list \<times> 32 word" where
  "observable r =
     (fst r, num_targets (snd r), highs (snd r), errors (snd r), trace (snd r), num (snd r))"

text \<open>
  Sample collaborators: a target type \<open>linear\<close> whose constructor always succeeds, a
  target type \<open>faulty\<close> whose constructor always fails, and an environment that knows
  both, whose table takes at most \<open>cap\<close> targets and whose \<^verbatim>\<open>page_cache_release\<close> does not
  come back from a NULL pointer (it reads the page it is handed).
\<close>

definition linear :: target_type where
  "linear = \<lparr>tt_name = ''linear'', tt_ctr = (\<lambda>start size args. (0, 1))\<rparr>"

definition faulty :: target_type where
  "faulty = \<lparr>tt_name = ''faulty'', tt_ctr = (\<lambda>start size args. (- 22, 0))\<rparr>"

definition sample_env :: "nat \<Rightarrow> env" where
  "sample_env cap =
     \<lparr>free_page_ok = True, free_page_bytes = (\<lambda>_. NUL), create_table_ok = True,
      registry = (\<lambda>name. if name = ''linear'' then Some linear
                        else if name = ''faulty'' then Some faulty else None),
      add_target_rv = (\<lambda>n high. if n < cap then 0 else - 12),
      release_null_returns = False\<rparr>"

text \<open>A table that already holds the range 0..99.\<close>

definition one_range :: pstate where
  "one_range = (init_state (sample_env 8))\<lparr>num_targets := 1, highs := (\<lambda>i. 0)(0 := 99)\<rparr>"

text \<open>
  A page cache that holds one page, at index 0; and a page of 4096 bytes whose first
  newline is its last byte.
\<close>

definition long_page :: page where
  "long_page = \<lparr>pg_uptodate = True, pg_data = replicate 4095 (CHR ''a'') @ [NL]\<rparr>"

definition only_page :: "page \<Rightarrow> ulong \<Rightarrow> page option" where
  "only_page pg = (\<lambda>index. if index = 0 then Some pg else None)"

text \<open>
  Every page that the loop of \<open>dmfs_parse\<close> still visits after the pass for \<open>index\<close> is
  missing from the page cache. The loop visits \<open>index + 1\<close>, \<open>index + 2\<close>, ... and stops
  before \<open>end_index\<close>; in \<^verbatim>\<open>unsigned long\<close> arithmetic these are the \<open>j\<close> that are nearer
  to \<open>index + 1\<close> than \<open>end_index\<close> is.
\<close>

definition rest_missing :: "(ulong \<Rightarrow> page option) \<Rightarrow> ulong \<Rightarrow> ulong \<Rightarrow> bool" where
  "rest_missing pages index end_index =
     (\<forall>j. j - (index + 1) < end_index - (index + 1) \<longrightarrow> pages j = None)"

text \<open>
  A page holding the 25 bytes of a complete line and the beginning of a second one; the
  rest of the page is zero.
\<close>

definition short_page :: page where
  "short_page =
     \<lparr>pg_uptodate = True,
      pg_data = ''0 8 linear /dev/a'' @ [NL] @ ''8 8 lin'' @ replicate 4071 NUL\<rparr>"

text \<open>
  Further pages of 4096 bytes: one without any newline in its first 4095 bytes, one that
  is in the page cache but not up to date, and one that is up to date and all zero; and
  a page cache without pages.
\<close>

definition unterminated_page :: page where
  "unterminated_page = \<lparr>pg_uptodate = True, pg_data = replicate 4095 (CHR ''a'') @ [NUL]\<rparr>"

definition stale_page :: page where
  "stale_page = \<lparr>pg_uptodate = False, pg_data = replicate 4096 NUL\<rparr>"

definition zero_page :: page where
  "zero_page = \<lparr>pg_uptodate = True, pg_data = replicate 4096 NUL\<rparr>"

definition no_pages :: "ulong \<Rightarrow> page option" where
  "no_pages = (\<lambda>index. None)"

text \<open>
  A file of 4115 bytes in two pages: page 0 holds two lines of 2047 bytes each, padded
  with blanks, and their newlines; page 1 holds a third line of 18 bytes and its
  newline, the rest of it is zero.
\<close>

definition line_a :: string where
  "line_a = ''0 8 linear /dev/a'' @ replicate 2030 (CHR '' '')"

definition line_b :: string where
  "line_b = ''8 8 linear /dev/b'' @ replicate 2030 (CHR '' '')"

definition two_pages :: "ulong \<Rightarrow> page option" where
  "two_pages =
     (\<lambda>index.
        if index = 0
        then Some \<lparr>pg_uptodate = True, pg_data = line_a @ [NL] @ line_b @ [NL]\<rparr>
        else if index = 1
        then Some \<lparr>pg_uptodate = True,
                   pg_data = ''16 8 linear /dev/c'' @ [NL] @ replicate 4077 NUL\<rparr>
        else None)"






section \<open>Properties\<close>

declare next_token.simps [simp del]
declare dmfs_parse_page.simps [simp del]
declare dmfs_parse_loop.simps [simp del]

lemmas eval_line =
  dmfs_parse_line_def dmfs_add_error_def emit_def next_token.simps strsep_def is_delim_def
  simple_strtoul_def is_digit_def start_of_next_range_def dm_table_add_target_def Let_def

lemmas eval_sample = sample_env_def linear_def faulty_def init_state_def

subsection \<open>The copy loop\<close>

lemma store_below: "i < d \<Longrightarrow> store m d xs i = m i"
  by (induction xs arbitrary: m d) auto

lemma dmfs_copy_line:
  "NL \<notin> set xs \<Longrightarrow> int (length xs) < dstlen \<Longrightarrow>
     dmfs_copy m d dstlen (xs @ NL # rest) = (store m d (xs @ [NUL]), Suc (length xs), True)"
  by (induction xs arbitrary: m d dstlen) auto

lemma dmfs_copy_fill:
  "NL \<notin> set xs \<Longrightarrow> int (length xs) = dstlen \<Longrightarrow>
     dmfs_copy m d dstlen (xs @ rest) = (store m d xs, length xs, False)"
proof (induction xs arbitrary: m d dstlen)
  case Nil
  then show ?case by (cases rest) auto
next
  case (Cons a xs)
  then show ?case by auto
qed

lemma dmfs_copy_partial:
  "NL \<notin> set xs \<Longrightarrow> int (length xs) \<le> dstlen \<Longrightarrow>
     dmfs_copy m d dstlen xs = (store m d xs, length xs, False)"
  by (induction xs arbitrary: m d dstlen) auto

lemma dmfs_copy_append:
  "NL \<in> set c \<Longrightarrow> dmfs_copy m d dstlen (c @ t) = dmfs_copy m d dstlen c"
  by (induction c arbitrary: m d dstlen) auto

lemma dmfs_copy_le: "dmfs_copy m d dstlen src = (m', k, f) \<Longrightarrow> k \<le> length src"
  by (induction src arbitrary: m d dstlen m' k f) (auto split: prod.splits if_splits)

lemma cstring_store:
  "length xs < n \<Longrightarrow> cstring (store m i (xs @ [NUL])) i n = takeWhile (\<lambda>c. c \<noteq> NUL) xs"
proof (induction xs arbitrary: m i n)
  case Nil
  then show ?case by (cases n) auto
next
  case (Cons a xs)
  then obtain k where n: "n = Suc k" by (cases n) auto
  with Cons.prems have "length xs < k" by simp
  then have ih: "cstring (store (m(i := a)) (Suc i) (xs @ [NUL])) (Suc i) k =
      takeWhile (\<lambda>c. c \<noteq> NUL) xs"
    by (rule Cons.IH)
  have "cstring (store m i ((a # xs) @ [NUL])) i n =
      (if a = NUL then [] else a # cstring (store (m(i := a)) (Suc i) (xs @ [NUL])) (Suc i) k)"
    using n by (simp add: store_below)
  with ih show ?case
    by simp
qed

subsection \<open>One call of dmfs_parse_page\<close>

lemma PAGE_SIZE_pos: "0 < PAGE_SIZE sh"
  by (simp add: PAGE_SIZE_def)


lemma dmfs_parse_line_frame [simp]:
  "tmp (dmfs_parse_line E t n s) = tmp t"
  "rem (dmfs_parse_line E t n s) = rem t"
  "num (dmfs_parse_line E t n s) = num t"
  by (auto simp: dmfs_parse_line_def dm_table_add_target_def dmfs_add_error_def emit_def Let_def
      split: prod.splits option.splits)

lemma parse_page_too_long:
  assumes "NL \<notin> set xs" "rem st + length xs = PAGE_SIZE sh - 1"
  shows "dmfs_parse_page E sh st (xs @ rest) =
           (- 1, st\<lparr>tmp := store (tmp st) (rem st) xs,
                    errors := errors st @ [(num st, ''Line too long'')]\<rparr>)"
proof -
  have "int (length xs) = int (PAGE_SIZE sh) - int (rem st) - 1"
    using assms PAGE_SIZE_pos [of sh] by linarith
  then have "dmfs_copy (tmp st) (rem st) (int (PAGE_SIZE sh) - int (rem st) - 1) (xs @ rest) =
      (store (tmp st) (rem st) xs, length xs, False)"
    using assms(1) by (simp add: dmfs_copy_fill)
  with assms(2) show ?thesis
    by (subst dmfs_parse_page.simps) (simp add: dmfs_add_error_def)
qed

lemma parse_page_partial:
  assumes "NL \<notin> set xs" "rem st + length xs < PAGE_SIZE sh - 1"
  shows "dmfs_parse_page E sh st xs =
           (0, st\<lparr>tmp := store (tmp st) (rem st) xs, rem := length xs\<rparr>)"
proof -
  have "int (length xs) \<le> int (PAGE_SIZE sh) - int (rem st) - 1"
    using assms by simp
  then have "dmfs_copy (tmp st) (rem st) (int (PAGE_SIZE sh) - int (rem st) - 1) xs =
      (store (tmp st) (rem st) xs, length xs, False)"
    using assms(1) by (simp add: dmfs_copy_partial)
  then show ?thesis
    using assms by (subst dmfs_parse_page.simps) simp
qed

lemma parse_page_line:
  assumes "NL \<notin> set xs" "rem st + length xs + 1 < PAGE_SIZE sh - 1"
  shows "dmfs_parse_page E sh st (xs @ NL # rest) =
           (if rest \<noteq> [] then dmfs_parse_page E sh (after_line E sh st xs) rest
            else (0, after_line E sh st xs))"
proof -
  have "int (length xs) < int (PAGE_SIZE sh) - int (rem st) - 1"
    using assms by simp
  then have "dmfs_copy (tmp st) (rem st) (int (PAGE_SIZE sh) - int (rem st) - 1) (xs @ NL # rest) =
      (store (tmp st) (rem st) (xs @ [NUL]), Suc (length xs), True)"
    using assms(1) by (simp add: dmfs_copy_line)
  then show ?thesis
    using assms by (subst dmfs_parse_page.simps) (simp add: after_line_def Let_def)
qed

text \<open>
  A chunk that continues behind a newline is parsed as its part up to that newline,
  followed by the rest: within one call no byte behind a newline influences what
  happens before it.
\<close>

lemma parse_page_prefix:
  assumes "pre \<noteq> []" "last pre = NL" "sfx \<noteq> []"
  shows "dmfs_parse_page E sh st (pre @ sfx) =
           (case dmfs_parse_page E sh st pre of
              (rv, st1) \<Rightarrow> if rv \<noteq> 0 then (rv, st1) else dmfs_parse_page E sh st1 sfx)"
  using assms
proof (induction E sh st pre rule: dmfs_parse_page.induct)
  case (1 E sh st buf)
  obtain m copied flag where c:
    "dmfs_copy (tmp st) (rem st) (int (PAGE_SIZE sh) - int (rem st) - 1) buf = (m, copied, flag)"
    by (cases "dmfs_copy (tmp st) (rem st) (int (PAGE_SIZE sh) - int (rem st) - 1) buf") auto
  from 1(2,3) have "NL \<in> set buf"
    using last_in_set by metis
  then have c':
    "dmfs_copy (tmp st) (rem st) (int (PAGE_SIZE sh) - int (rem st) - 1) (buf @ sfx) =
       (m, copied, flag)"
    using c by (simp add: dmfs_copy_append)
  from c have le: "copied \<le> length buf"
    by (rule dmfs_copy_le)
  show ?case
  proof (cases "rem st + copied = PAGE_SIZE sh - 1")
    case True
    then show ?thesis
      using c c' by (simp add: dmfs_parse_page.simps [of E sh st])
  next
    case False
    define st1 where "st1 = st\<lparr>tmp := m, rem := copied\<rparr>"
    define st2 where
      "st2 = (if flag
              then (let str = cstring (tmp st1) 0 (PAGE_SIZE sh);
                        st' = dmfs_parse_line E (emit (Parse_line (num st1) str) st1)
                                (num st1) str
                    in st'\<lparr>num := num st' + 1, rem := 0\<rparr>)
              else st1)"
    have L: "dmfs_parse_page E sh st (buf @ sfx) =
        dmfs_parse_page E sh st2 (drop copied buf @ sfx)"
      using c' False le 1(4)
      by (subst dmfs_parse_page.simps) (simp add: st1_def st2_def Let_def)
    have R: "dmfs_parse_page E sh st buf =
        (if drop copied buf \<noteq> [] then dmfs_parse_page E sh st2 (drop copied buf) else (0, st2))"
      using c False
      by (subst dmfs_parse_page.simps) (simp add: st1_def st2_def Let_def)
    show ?thesis
    proof (cases "drop copied buf = []")
      case True
      with L R show ?thesis by simp
    next
      case ne: False
      then have lst: "last (drop copied buf) = NL"
        using 1(3) by simp
      have "dmfs_parse_page E sh st2 (drop copied buf @ sfx) =
           (case dmfs_parse_page E sh st2 (drop copied buf) of
              (rv, st1) \<Rightarrow> if rv \<noteq> 0 then (rv, st1) else dmfs_parse_page E sh st1 sfx)"
        using "1.IH" [OF c [symmetric] refl False st1_def st2_def ne ne lst 1(4)] .
      with L R ne show ?thesis by simp
    qed
  qed
qed

lemma dmfs_copy_all_flag:
  "dmfs_copy m d dstlen buf = (m', k, f) \<Longrightarrow> k = length buf \<Longrightarrow> buf \<noteq> [] \<Longrightarrow>
     last buf = NL \<Longrightarrow> f"
proof (induction buf arbitrary: m d dstlen m' k f)
  case Nil
  then show ?case by simp
next
  case (Cons c cs)
  show ?case
  proof (cases "dstlen = 0 \<or> c = NL")
    case True
    with Cons.prems show ?thesis by (auto split: if_splits)
  next
    case False
    then obtain m1 k1 f1 where r: "dmfs_copy (m(d := c)) (Suc d) (dstlen - 1) cs = (m1, k1, f1)"
      by (cases "dmfs_copy (m(d := c)) (Suc d) (dstlen - 1) cs") auto
    with False Cons.prems have eq: "k = Suc k1" "f = f1" "k1 = length cs"
      by auto
    show ?thesis
    proof (cases "cs = []")
      case True
      with False Cons.prems show ?thesis by simp
    next
      case ne: False
      with Cons.prems have "last cs = NL" by simp
      from Cons.IH [OF r eq(3) ne this] eq show ?thesis by simp
    qed
  qed
qed

lemma parse_page_rem_zero:
  assumes "pre \<noteq> []" "last pre = NL" "dmfs_parse_page E sh st pre = (0, st1)"
  shows "rem st1 = 0"
  using assms
proof (induction E sh st pre rule: dmfs_parse_page.induct)
  case (1 E sh st buf)
  obtain m copied flag where c:
    "dmfs_copy (tmp st) (rem st) (int (PAGE_SIZE sh) - int (rem st) - 1) buf = (m, copied, flag)"
    by (cases "dmfs_copy (tmp st) (rem st) (int (PAGE_SIZE sh) - int (rem st) - 1) buf") auto
  from c have le: "copied \<le> length buf"
    by (rule dmfs_copy_le)
  have nt: "rem st + copied \<noteq> PAGE_SIZE sh - 1"
  proof
    assume "rem st + copied = PAGE_SIZE sh - 1"
    with c 1(4) show False
      by (simp add: dmfs_parse_page.simps [of E sh st buf])
  qed
  define st1' where "st1' = st\<lparr>tmp := m, rem := copied\<rparr>"
  define st2 where
    "st2 = (if flag
            then (let str = cstring (tmp st1') 0 (PAGE_SIZE sh);
                      st' = dmfs_parse_line E (emit (Parse_line (num st1') str) st1')
                              (num st1') str
                  in st'\<lparr>num := num st' + 1, rem := 0\<rparr>)
            else st1')"
  have R: "dmfs_parse_page E sh st buf =
      (if drop copied buf \<noteq> [] then dmfs_parse_page E sh st2 (drop copied buf) else (0, st2))"
    using c nt
    by (subst dmfs_parse_page.simps) (simp add: st1'_def st2_def Let_def)
  show ?case
  proof (cases "drop copied buf = []")
    case True
    with le have "copied = length buf" by simp
    from dmfs_copy_all_flag [OF c this 1(2,3)] have flag .
    moreover from True R 1(4) have "st1 = st2" by simp
    ultimately show ?thesis
      by (simp add: st2_def Let_def)
  next
    case ne: False
    then have lst: "last (drop copied buf) = NL"
      using 1(3) by simp
    from R ne 1(4) have "dmfs_parse_page E sh st2 (drop copied buf) = (0, st1)"
      by simp
    from "1.IH" [OF c [symmetric] refl nt st1'_def st2_def ne ne lst this]
    show ?thesis .
  qed
qed

lemma PAGE_SIZE_ge2: "0 < sh \<Longrightarrow> 2 \<le> PAGE_SIZE sh"
  by (cases sh) (simp_all add: PAGE_SIZE_def)

lemma after_line_fresh:
  assumes "rem st = 0" "length xs < PAGE_SIZE sh" "NUL \<notin> set xs"
  shows "after_line E sh st xs =
           (dmfs_parse_line E
              (emit (Parse_line (num st) xs)
                 (st\<lparr>tmp := store (tmp st) 0 (xs @ [NUL]), rem := Suc (length xs)\<rparr>))
              (num st) xs)\<lparr>num := num st + 1, rem := 0\<rparr>"
proof -
  have "takeWhile (\<lambda>c. c \<noteq> NUL) xs = xs"
    using assms(3) by (auto simp: takeWhile_eq_all_conv)
  with cstring_store [OF assms(2), of "tmp st" 0] assms(1) show ?thesis
    by (simp add: after_line_def Let_def emit_def)
qed



subsection \<open>Lines across chunks\<close>





lemma forget_rem_simps [simp]:
  "forget_rem (rv, s) = (rv, s\<lparr>rem := 0\<rparr>)"
  by (simp add: forget_rem_def)








text \<open>
  Chunks cut at page boundaries, where only the first and the last may be shorter than
  a page, are of the kind \<open>inner_chunks_ok\<close> asks for.
\<close>

lemma inner_chunks_ok_pages:
  "list_all (\<lambda>c. length c = PAGE_SIZE sh) (butlast (tl chunks)) \<Longrightarrow> inner_chunks_ok sh chunks"
  by (simp add: inner_chunks_ok_def list_all_iff)


lemma rem_after_line [simp]: "rem (after_line E sh st l) = 0"
  by (simp add: after_line_def Let_def)








subsection \<open>The line parser\<close>

text \<open>
  C7. A line that reaches the registry lookup with a third token the registry does not
  know (\<^verbatim>\<open>dm_get_target_type\<close> returns NULL) gets exactly the error "Target type unknown":
  the table is as before, the error list has one more entry, and the only call made is
  the lookup itself, so no constructor runs.
\<close>

theorem unknown_target_type:
  assumes "next_token (Some str) = (Some tok1, p1)"
    and "next_token p1 = (Some tok2, p2)"
    and "simple_strtoul tok1 = start_of_next_range t"
    and "next_token p2 = (Some tok3, p3)"
    and "registry E tok3 = None"
  shows "dmfs_parse_line E t n str =
           t\<lparr>errors := errors t @ [(n, ''Target type unknown'')],
             trace := trace t @ [Get_target_type tok3]\<rparr>"
  using assms by (simp add: dmfs_parse_line_def dmfs_add_error_def emit_def Let_def)

theorem unknown_target_type_witness:
  "next_token (Some ''0 100 bogus'') = (Some ''0'', Some ''100 bogus'') \<and>
   next_token (Some ''100 bogus'') = (Some ''100'', Some ''bogus'') \<and>
   simple_strtoul ''0'' = start_of_next_range (init_state (sample_env 8)) \<and>
   next_token (Some ''bogus'') = (Some ''bogus'', None) \<and>
   registry (sample_env 8) ''bogus'' = None \<and>
   dmfs_parse_line (sample_env 8) (init_state (sample_env 8)) 0 ''0 100 bogus'' =
     (init_state (sample_env 8))\<lparr>errors := [(0, ''Target type unknown'')],
                                  trace := [Get_target_type ''bogus'']\<rparr>"
proof -
  have 1: "next_token (Some ''0 100 bogus'') = (Some ''0'', Some ''100 bogus'')"
    by (simp add: eval_line)
  have 2: "next_token (Some ''100 bogus'') = (Some ''100'', Some ''bogus'')"
    by (simp add: eval_line)
  have 3: "simple_strtoul ''0'' = start_of_next_range (init_state (sample_env 8))"
    by (simp add: eval_line eval_sample)
  have 4: "next_token (Some ''bogus'') = (Some ''bogus'', None)"
    by (simp add: eval_line)
  have 5: "registry (sample_env 8) ''bogus'' = None"
    by (simp add: eval_sample)
  from unknown_target_type [OF 1 2 3 4 5, of 0] 1 2 3 4 5 show ?thesis
    by (simp add: eval_sample)
qed

text \<open>
  C6. When the constructor succeeds and \<^verbatim>\<open>dm_table_add_target\<close>, called with
  \<open>high = start + (size - 1)\<close>, fails, the next call is the destructor of the same
  target type on the context just built, then the handle is put back, and the one
  error recorded for the line is "Error adding target to table". The table itself is
  unchanged.
\<close>

theorem append_failure_destructs:
  assumes "next_token (Some str) = (Some tok1, p1)"
    and "next_token p1 = (Some tok2, p2)"
    and "simple_strtoul tok1 = start_of_next_range t"
    and "next_token p2 = (Some tok3, p3)"
    and "registry E tok3 = Some ttype"
    and "tt_ctr ttype (simple_strtoul tok1) (simple_strtoul tok2) p3 = (0, context)"
    and "add_target_rv E (num_targets t) (simple_strtoul tok1 + (simple_strtoul tok2 - 1)) \<noteq> 0"
  shows "dmfs_parse_line E t n str =
           t\<lparr>errors := errors t @ [(n, ''Error adding target to table'')],
             trace := trace t @
               [Get_target_type tok3,
                Ctr (tt_name ttype) (simple_strtoul tok1) (simple_strtoul tok2) p3,
                Add_target (simple_strtoul tok1 + (simple_strtoul tok2 - 1)) (tt_name ttype) context,
                Dtr (tt_name ttype) context,
                Put_target_type (tt_name ttype)]\<rparr>"
  using assms
  by (simp add: dmfs_parse_line_def dm_table_add_target_def dmfs_add_error_def emit_def Let_def)

theorem append_failure_destructs_witness:
  "next_token (Some ''0 100 linear /dev/x'') = (Some ''0'', Some ''100 linear /dev/x'') \<and>
   next_token (Some ''100 linear /dev/x'') = (Some ''100'', Some ''linear /dev/x'') \<and>
   simple_strtoul ''0'' = start_of_next_range (init_state (sample_env 0)) \<and>
   next_token (Some ''linear /dev/x'') = (Some ''linear'', Some ''/dev/x'') \<and>
   registry (sample_env 0) ''linear'' = Some linear \<and>
   tt_ctr linear (simple_strtoul ''0'') (simple_strtoul ''100'') (Some ''/dev/x'') = (0, 1) \<and>
   add_target_rv (sample_env 0) (num_targets (init_state (sample_env 0)))
     (simple_strtoul ''0'' + (simple_strtoul ''100'' - 1)) \<noteq> 0 \<and>
   dmfs_parse_line (sample_env 0) (init_state (sample_env 0)) 0 ''0 100 linear /dev/x'' =
     (init_state (sample_env 0))
       \<lparr>errors := [(0, ''Error adding target to table'')],
        trace := [Get_target_type ''linear'', Ctr ''linear'' 0 100 (Some ''/dev/x''),
                  Add_target 99 ''linear'' 1, Dtr ''linear'' 1, Put_target_type ''linear'']\<rparr>"
proof -
  have 1: "next_token (Some ''0 100 linear /dev/x'') = (Some ''0'', Some ''100 linear /dev/x'')"
    by (simp add: eval_line)
  have 2: "next_token (Some ''100 linear /dev/x'') = (Some ''100'', Some ''linear /dev/x'')"
    by (simp add: eval_line)
  have 3: "simple_strtoul ''0'' = start_of_next_range (init_state (sample_env 0))"
    by (simp add: eval_line eval_sample)
  have 4: "next_token (Some ''linear /dev/x'') = (Some ''linear'', Some ''/dev/x'')"
    by (simp add: eval_line)
  have 5: "registry (sample_env 0) ''linear'' = Some linear"
    by (simp add: eval_sample)
  have 6: "tt_ctr linear (simple_strtoul ''0'') (simple_strtoul ''100'') (Some ''/dev/x'') = (0, 1)"
    by (simp add: eval_sample)
  have 7: "add_target_rv (sample_env 0) (num_targets (init_state (sample_env 0)))
      (simple_strtoul ''0'' + (simple_strtoul ''100'' - 1)) \<noteq> 0"
    by (simp add: eval_sample)
  have v: "simple_strtoul ''0'' = 0" "simple_strtoul ''100'' = 100"
    by (simp_all add: eval_line)
  from append_failure_destructs [OF 1 2 3 4 5 6 7, of 0] 1 2 3 4 5 6 7 show ?thesis
    by (simp add: v linear_def init_state_def)
qed

text \<open>
  C5, as stated, fails on the success path: after a successful lookup, constructor and
  append, \<open>dmfs_parse_line\<close> returns at once, and \<^verbatim>\<open>dm_put_target_type\<close> is not among the
  calls it made.
\<close>

theorem handle_release_counterexample:
  "registry (sample_env 8) ''linear'' = Some linear \<and>
   trace (dmfs_parse_line (sample_env 8) (init_state (sample_env 8)) 0 ''0 100 linear /dev/x'') =
     [Get_target_type ''linear'', Ctr ''linear'' 0 100 (Some ''/dev/x''),
      Add_target 99 ''linear'' 1] \<and>
   Put_target_type ''linear'' \<notin>
     set (trace (dmfs_parse_line (sample_env 8) (init_state (sample_env 8)) 0
                   ''0 100 linear /dev/x''))"
  by (simp add: eval_line eval_sample)

text \<open>
  C5, amended. After a successful lookup the constructor is called. On the two exits
  that record an error (the constructor fails; the constructor succeeds and the append
  fails, where the destructor comes first) the last call of \<open>dmfs_parse_line\<close> is
  \<^verbatim>\<open>dm_put_target_type\<close> on the handle. On the success exit nothing follows the append:
  no error is recorded and the handle is not put back by the line parser.
\<close>

theorem handle_release_on_error_paths:
  assumes "next_token (Some str) = (Some tok1, p1)"
    and "next_token p1 = (Some tok2, p2)"
    and "simple_strtoul tok1 = start_of_next_range t"
    and "next_token p2 = (Some tok3, p3)"
    and "registry E tok3 = Some ttype"
    and "tt_ctr ttype (simple_strtoul tok1) (simple_strtoul tok2) p3 = (rv, context)"
    and "high = simple_strtoul tok1 + (simple_strtoul tok2 - 1)"
  shows "trace (dmfs_parse_line E t n str) =
           trace t @
           [Get_target_type tok3,
            Ctr (tt_name ttype) (simple_strtoul tok1) (simple_strtoul tok2) p3] @
           (if rv \<noteq> 0 then [Put_target_type (tt_name ttype)]
            else if add_target_rv E (num_targets t) high \<noteq> 0
            then [Add_target high (tt_name ttype) context, Dtr (tt_name ttype) context,
                  Put_target_type (tt_name ttype)]
            else [Add_target high (tt_name ttype) context]) \<and>
         errors (dmfs_parse_line E t n str) =
           errors t @
           (if rv \<noteq> 0 then [(n, ''This message should never appear (constructor error)'')]
            else if add_target_rv E (num_targets t) high \<noteq> 0
            then [(n, ''Error adding target to table'')]
            else [])"
  using assms
  by (simp add: dmfs_parse_line_def dm_table_add_target_def dmfs_add_error_def emit_def Let_def)

theorem handle_release_on_error_paths_witness:
  "next_token (Some ''0 100 faulty'') = (Some ''0'', Some ''100 faulty'') \<and>
   next_token (Some ''100 faulty'') = (Some ''100'', Some ''faulty'') \<and>
   simple_strtoul ''0'' = start_of_next_range (init_state (sample_env 8)) \<and>
   next_token (Some ''faulty'') = (Some ''faulty'', None) \<and>
   registry (sample_env 8) ''faulty'' = Some faulty \<and>
   tt_ctr faulty (simple_strtoul ''0'') (simple_strtoul ''100'') None = (- 22, 0) \<and>
   trace (dmfs_parse_line (sample_env 8) (init_state (sample_env 8)) 0 ''0 100 faulty'') =
     [Get_target_type ''faulty'', Ctr ''faulty'' 0 100 None, Put_target_type ''faulty''] \<and>
   errors (dmfs_parse_line (sample_env 8) (init_state (sample_env 8)) 0 ''0 100 faulty'') =
     [(0, ''This message should never appear (constructor error)'')]"
proof -
  have 1: "next_token (Some ''0 100 faulty'') = (Some ''0'', Some ''100 faulty'')"
    by (simp add: eval_line)
  have 2: "next_token (Some ''100 faulty'') = (Some ''100'', Some ''faulty'')"
    by (simp add: eval_line)
  have 3: "simple_strtoul ''0'' = start_of_next_range (init_state (sample_env 8))"
    by (simp add: eval_line eval_sample)
  have 4: "next_token (Some ''faulty'') = (Some ''faulty'', None)"
    by (simp add: eval_line)
  have 5: "registry (sample_env 8) ''faulty'' = Some faulty"
    by (simp add: eval_sample)
  have 6: "tt_ctr faulty (simple_strtoul ''0'') (simple_strtoul ''100'') None = (- 22, 0)"
    by (simp add: eval_sample)
  have v: "simple_strtoul ''0'' = 0" "simple_strtoul ''100'' = 100"
    by (simp_all add: eval_line)
  from handle_release_on_error_paths [OF 1 2 3 4 5 6 refl, of 0] 1 2 3 4 5 6 show ?thesis
    by (simp add: v faulty_def init_state_def)
qed

lemma start_of_next_range_frame [simp]:
  "start_of_next_range (st\<lparr>tmp := a\<rparr>) = start_of_next_range st"
  "start_of_next_range (st\<lparr>rem := b\<rparr>) = start_of_next_range st"
  "start_of_next_range (st\<lparr>trace := c\<rparr>) = start_of_next_range st"
  "start_of_next_range (st\<lparr>errors := d\<rparr>) = start_of_next_range st"
  "start_of_next_range (st\<lparr>num := e\<rparr>) = start_of_next_range st"
  by (simp_all add: start_of_next_range_def)

lemma parse_line_gap:
  assumes "next_token (Some str) = (Some tok1, p1)"
    and "next_token p1 = (Some tok2, p2)"
    and "simple_strtoul tok1 \<noteq> start_of_next_range t"
  shows "dmfs_parse_line E t n str = t\<lparr>errors := errors t @ [(n, ''Gap in table'')]\<rparr>"
  using assms by (simp add: dmfs_parse_line_def dmfs_add_error_def Let_def)

text \<open>
  C2. When the line parser is called on a line with a first and a second token, the
  expected start is 0 for a table without targets and the last high plus one otherwise.
  If the first token's value differs from it, the parser records exactly "Gap in table"
  under the line's number and changes nothing else: no call is made and the table keeps
  its targets. Inside \<open>dmfs_parse_page\<close> the line \<open>ys\<close> that follows in the chunk is
  then handed to the line parser under the next line number, on the table as it was
  before the line with the gap and with that one error recorded; what the line parser
  makes of it is the outcome for that line, and the rest of the chunk is parsed from
  there. (In the sample, the line behind the gap adds a second target, with high 149.)
\<close>

theorem gap_in_table:
  assumes "NL \<notin> set xs"
    and "rem st + length xs + 1 < PAGE_SIZE sh - 1"
    and "str = cstring (store (tmp st) (rem st) (xs @ [NUL])) 0 (PAGE_SIZE sh)"
    and "next_token (Some str) = (Some tok1, p1)"
    and "next_token p1 = (Some tok2, p2)"
    and "simple_strtoul tok1 \<noteq> start_of_next_range st"
    and "NL \<notin> set ys"
    and "length ys + 1 < PAGE_SIZE sh - 1"
    and "nxt = cstring (store (store (tmp st) (rem st) (xs @ [NUL])) 0 (ys @ [NUL])) 0
                 (PAGE_SIZE sh)"
  shows "start_of_next_range st =
           (if num_targets st = 0 then 0 else highs st (num_targets st - 1) + 1) \<and>
         dmfs_parse_line E st n str = st\<lparr>errors := errors st @ [(n, ''Gap in table'')]\<rparr> \<and>
         dmfs_parse_page E sh st (xs @ NL # ys @ NL # rest) =
           (let st1 = st\<lparr>errors := errors st @ [(num st, ''Gap in table'')],
                         trace := trace st @
                           [Parse_line (num st) str, Parse_line (num st + 1) nxt],
                         tmp := store (store (tmp st) (rem st) (xs @ [NUL])) 0 (ys @ [NUL]),
                         rem := Suc (length ys), num := num st + 1\<rparr>;
                st2 = (dmfs_parse_line E st1 (num st + 1) nxt)\<lparr>num := num st + 2, rem := 0\<rparr>
            in if rest = [] then (0, st2) else dmfs_parse_page E sh st2 rest)"
proof -
  define st1 where
    "st1 = emit (Parse_line (num st) str)
             (st\<lparr>tmp := store (tmp st) (rem st) (xs @ [NUL]), rem := Suc (length xs)\<rparr>)"
  define sg where
    "sg = st\<lparr>errors := errors st @ [(num st, ''Gap in table'')],
             trace := trace st @ [Parse_line (num st) str],
             tmp := store (tmp st) (rem st) (xs @ [NUL]), rem := 0, num := num st + 1\<rparr>"
  have g: "simple_strtoul tok1 \<noteq> start_of_next_range st1"
    using assms(6) by (simp add: st1_def emit_def)
  have pl: "dmfs_parse_line E st1 (num st) str =
      st1\<lparr>errors := errors st1 @ [(num st, ''Gap in table'')]\<rparr>"
    by (rule parse_line_gap [OF assms(4,5) g])
  have "after_line E sh st xs = (dmfs_parse_line E st1 (num st) str)\<lparr>num := num st + 1, rem := 0\<rparr>"
    by (simp add: after_line_def Let_def st1_def assms(3) emit_def)
  then have a: "after_line E sh st xs = sg"
    by (simp only: pl) (simp add: st1_def sg_def emit_def)
  have 1: "dmfs_parse_page E sh st (xs @ NL # ys @ NL # rest) =
      dmfs_parse_page E sh sg (ys @ NL # rest)"
    using parse_page_line [OF assms(1,2), of E "ys @ NL # rest"] by (simp add: a)
  have r: "rem sg + length ys + 1 < PAGE_SIZE sh - 1"
    using assms(8) by (simp add: sg_def)
  have 2: "dmfs_parse_page E sh sg (ys @ NL # rest) =
      (if rest \<noteq> [] then dmfs_parse_page E sh (after_line E sh sg ys) rest
       else (0, after_line E sh sg ys))"
    by (rule parse_page_line [OF assms(7) r])
  define t2 where
    "t2 = st\<lparr>errors := errors st @ [(num st, ''Gap in table'')],
             trace := trace st @ [Parse_line (num st) str, Parse_line (num st + 1) nxt],
             tmp := store (store (tmp st) (rem st) (xs @ [NUL])) 0 (ys @ [NUL]),
             rem := Suc (length ys), num := num st + 1\<rparr>"
  have e: "emit (Parse_line (num sg) nxt)
             (sg\<lparr>tmp := store (tmp sg) (rem sg) (ys @ [NUL]), rem := Suc (length ys)\<rparr>) = t2"
    by (cases st) (simp add: sg_def t2_def emit_def)
  have "after_line E sh sg ys =
      (dmfs_parse_line E
         (emit (Parse_line (num sg) nxt)
            (sg\<lparr>tmp := store (tmp sg) (rem sg) (ys @ [NUL]), rem := Suc (length ys)\<rparr>))
         (num sg) nxt)\<lparr>num := num sg + 1, rem := 0\<rparr>"
    by (simp add: after_line_def Let_def assms(9) sg_def emit_def)
  then have 3: "after_line E sh sg ys =
      (dmfs_parse_line E t2 (num st + 1) nxt)\<lparr>num := num st + 2, rem := 0\<rparr>"
    by (simp only: e) (simp add: sg_def)
  show ?thesis
    by (simp only: 1 2 3 parse_line_gap [OF assms(4,5,6)] Let_def t2_def [symmetric])
       (simp add: start_of_next_range_def)
qed


theorem gap_in_table_witness:
  "NL \<notin> set ''50 10 linear /dev/y 0'' \<and>
   rem one_range + length ''50 10 linear /dev/y 0'' + 1 < PAGE_SIZE 12 - 1 \<and>
   ''50 10 linear /dev/y 0'' =
     cstring (store (tmp one_range) (rem one_range) (''50 10 linear /dev/y 0'' @ [NUL])) 0
       (PAGE_SIZE 12) \<and>
   next_token (Some ''50 10 linear /dev/y 0'') = (Some ''50'', Some ''10 linear /dev/y 0'') \<and>
   next_token (Some ''10 linear /dev/y 0'') = (Some ''10'', Some ''linear /dev/y 0'') \<and>
   simple_strtoul ''50'' \<noteq> start_of_next_range one_range \<and>
   NL \<notin> set ''100 50 linear /dev/z 0'' \<and>
   length ''100 50 linear /dev/z 0'' + 1 < PAGE_SIZE 12 - 1 \<and>
   ''100 50 linear /dev/z 0'' =
     cstring (store (store (tmp one_range) (rem one_range) (''50 10 linear /dev/y 0'' @ [NUL])) 0
                (''100 50 linear /dev/z 0'' @ [NUL])) 0 (PAGE_SIZE 12) \<and>
   start_of_next_range one_range = 100 \<and>
   dmfs_parse_line (sample_env 8) one_range 1 ''50 10 linear /dev/y 0'' =
     one_range\<lparr>errors := [(1, ''Gap in table'')]\<rparr> \<and>
   dmfs_parse_page (sample_env 8) 12 one_range
       (''50 10 linear /dev/y 0'' @ NL # ''100 50 linear /dev/z 0'' @ NL # []) =
     (0, one_range
           \<lparr>num_targets := 2, highs := (\<lambda>i. 0)(0 := 99, 1 := 149),
            errors := [(0, ''Gap in table'')],
            trace := [Parse_line 0 ''50 10 linear /dev/y 0'',
                      Parse_line 1 ''100 50 linear /dev/z 0'',
                      Get_target_type ''linear'',
                      Ctr ''linear'' 100 50 (Some ''/dev/z 0''),
                      Add_target 149 ''linear'' 1],
            tmp := store (store (\<lambda>_. NUL) 0 (''50 10 linear /dev/y 0'' @ [NUL])) 0
                     (''100 50 linear /dev/z 0'' @ [NUL]),
            num := 2\<rparr>)"
proof -
  have 1: "NL \<notin> set ''50 10 linear /dev/y 0''"
    by (simp add: NL_def)
  have 2: "rem one_range + length ''50 10 linear /dev/y 0'' + 1 < PAGE_SIZE 12 - 1"
    by (simp add: one_range_def init_state_def PAGE_SIZE_def)
  have r0: "rem one_range = 0"
    by (simp add: one_range_def init_state_def)
  have 3: "''50 10 linear /dev/y 0'' =
      cstring (store (tmp one_range) (rem one_range) (''50 10 linear /dev/y 0'' @ [NUL])) 0
        (PAGE_SIZE 12)"
    using r0 by (simp only:, subst cstring_store) (simp_all add: PAGE_SIZE_def NUL_def)
  have 4: "next_token (Some ''50 10 linear /dev/y 0'') = (Some ''50'', Some ''10 linear /dev/y 0'')"
    by (simp add: eval_line)
  have 5: "next_token (Some ''10 linear /dev/y 0'') = (Some ''10'', Some ''linear /dev/y 0'')"
    by (simp add: eval_line)
  have 6: "simple_strtoul ''50'' \<noteq> start_of_next_range one_range"
    by (simp add: eval_line one_range_def)
  have 7: "NL \<notin> set ''100 50 linear /dev/z 0''"
    by (simp add: NL_def)
  have 8: "length ''100 50 linear /dev/z 0'' + 1 < PAGE_SIZE 12 - 1"
    by (simp add: PAGE_SIZE_def)
  have 9: "''100 50 linear /dev/z 0'' =
     cstring (store (store (tmp one_range) (rem one_range) (''50 10 linear /dev/y 0'' @ [NUL])) 0
                (''100 50 linear /dev/z 0'' @ [NUL])) 0 (PAGE_SIZE 12)"
    by (subst cstring_store) (simp_all add: PAGE_SIZE_def NUL_def)
  have s: "start_of_next_range one_range = 100" "num one_range = 0" "errors one_range = []"
    "trace one_range = []" "tmp one_range = (\<lambda>_. NUL)" "rem one_range = 0"
    "num_targets one_range = 1" "highs one_range = (\<lambda>i. 0)(0 := 99)"
    by (simp_all add: start_of_next_range_def one_range_def eval_sample)
  have c: "start_of_next_range one_range = 100 \<and>
   dmfs_parse_line (sample_env 8) one_range 1 ''50 10 linear /dev/y 0'' =
     one_range\<lparr>errors := [(1, ''Gap in table'')]\<rparr> \<and>
   dmfs_parse_page (sample_env 8) 12 one_range
       (''50 10 linear /dev/y 0'' @ NL # ''100 50 linear /dev/z 0'' @ NL # []) =
     (0, one_range
           \<lparr>num_targets := 2, highs := (\<lambda>i. 0)(0 := 99, 1 := 149),
            errors := [(0, ''Gap in table'')],
            trace := [Parse_line 0 ''50 10 linear /dev/y 0'',
                      Parse_line 1 ''100 50 linear /dev/z 0'',
                      Get_target_type ''linear'',
                      Ctr ''linear'' 100 50 (Some ''/dev/z 0''),
                      Add_target 149 ''linear'' 1],
            tmp := store (store (\<lambda>_. NUL) 0 (''50 10 linear /dev/y 0'' @ [NUL])) 0
                     (''100 50 linear /dev/z 0'' @ [NUL]),
            num := 2\<rparr>)"
    using gap_in_table [OF 1 2 3 4 5 6 7 8 9, of "sample_env 8" 1 "[]"]
    by (simp add: s eval_line eval_sample del: store.simps)
  from 1 2 3 4 5 6 7 8 9 c show ?thesis
    by blast
qed

subsection \<open>The loop of dmfs_parse\<close>

lemma index_dist_pos: "(j::ulong) \<noteq> ei \<Longrightarrow> j - j < ei - j"
  by (simp add: word_neq_0_conv [symmetric])

lemma index_dist_step:
  fixes i j ei :: ulong
  assumes "j \<noteq> ei" "i - (j + 1) < ei - (j + 1)"
  shows "i - j < ei - j"
proof -
  define x where "x = i - (j + 1)"
  define y where "y = ei - (j + 1)"
  have a: "i - j = x + 1" "ei - j = y + 1"
    by (simp_all add: x_def y_def)
  from assms(1) have "y + 1 \<noteq> 0"
    by (simp add: y_def)
  moreover from assms(2) have "x < y"
    by (simp add: x_def y_def)
  ultimately have "x + 1 < y + 1"
    by unat_arith
  with a show ?thesis by simp
qed

lemma index_dist_self: "\<not> (index - (index + 1) < (y::ulong))"
proof -
  have "index - (index + 1) = (- 1 :: ulong)"
    by simp
  then show ?thesis
    by (simp only:) simp
qed


lemma observable_finish_scratch:
  "observable (dmfs_parse_finish (s\<lparr>tmp := a, rem := b\<rparr>)) = observable (dmfs_parse_finish s)"
  by (simp add: observable_def dmfs_parse_finish_def dm_table_complete_def emit_def Let_def)

lemma observable_abort_scratch:
  "observable (dmfs_parse_abort msg (s\<lparr>tmp := a, rem := b\<rparr>)) = observable (dmfs_parse_abort msg s)"
  by (simp add: observable_def dmfs_parse_abort_def emit_def)

lemma observable_stop_scratch:
  "observable (r, s\<lparr>tmp := a, rem := b\<rparr>) = observable (r, s)"
  by (simp add: observable_def)

lemma emit_scratch:
  "emit e (s\<lparr>tmp := a, rem := b\<rparr>) = (emit e s)\<lparr>tmp := a, rem := b\<rparr>"
  by (cases s) (simp add: emit_def)

lemma loop_skip_missing:
  assumes "j \<noteq> end_index"
    and "\<forall>i. i - j < end_index - j \<longrightarrow> pages i = None \<and> pages' i = None"
  shows "observable (dmfs_parse_loop E sh pages end_index end_offset j (s\<lparr>tmp := a, rem := b\<rparr>)) =
         observable (dmfs_parse_loop E sh pages' end_index end_offset j s)"
  using assms
proof (induction E sh pages' end_index end_offset j s arbitrary: a b rule: dmfs_parse_loop.induct)
  case (1 E sh pages' end_index end_offset index st)
  from 1(2,3) index_dist_pos [of index end_index] have none: "pages index = None" "pages' index = None"
    by auto
  define st' where "st' = emit (Page_cache_release None) (emit (Find_page index) st)"
  have L: "dmfs_parse_loop E sh pages end_index end_offset index (st\<lparr>tmp := a, rem := b\<rparr>) =
      (if \<not> release_null_returns E then (No_return, st'\<lparr>tmp := a, rem := b\<rparr>)
       else if index + 1 \<noteq> end_index
       then dmfs_parse_loop E sh pages end_index end_offset (index + 1) (st'\<lparr>tmp := a, rem := b\<rparr>)
       else dmfs_parse_finish (st'\<lparr>tmp := a, rem := b\<rparr>))"
    using none(1)
    by (subst dmfs_parse_loop.simps) (simp add: dmfs_parse_body_def emit_scratch st'_def Let_def)
  have R: "dmfs_parse_loop E sh pages' end_index end_offset index st =
      (if \<not> release_null_returns E then (No_return, st')
       else if index + 1 \<noteq> end_index
       then dmfs_parse_loop E sh pages' end_index end_offset (index + 1) st'
       else dmfs_parse_finish st')"
    using none(2) by (subst dmfs_parse_loop.simps) (simp add: dmfs_parse_body_def st'_def Let_def)
  show ?case
  proof (cases "release_null_returns E \<and> index + 1 \<noteq> end_index")
    case False
    with L R show ?thesis
      by (auto simp: observable_finish_scratch observable_stop_scratch)
  next
    case True
    then have b: "dmfs_parse_body E sh pages' end_index end_offset index st = (Next, st')"
      using none(2) by (simp add: dmfs_parse_body_def st'_def Let_def)
    have nx: "\<forall>i. i - (index + 1) < end_index - (index + 1) \<longrightarrow> pages i = None \<and> pages' i = None"
      using 1(3) index_dist_step [OF 1(2)] by blast
    from True have ne: "index + 1 \<noteq> end_index"
      by simp
    from "1.IH" [OF b [symmetric] refl ne ne nx] L R True show ?thesis
      by simp
  qed
qed

lemma rest_missing_only_page: "rest_missing (only_page pg) 0 0"
proof -
  have "j \<noteq> 0" if "j - 1 < (- 1 :: ulong)" for j :: ulong
    using that by auto
  then show ?thesis
    by (auto simp: rest_missing_def only_page_def)
qed

lemma dmfs_parse_start:
  assumes "i_size \<noteq> 0" "free_page_ok E" "create_table_ok E"
  shows "dmfs_parse E sh pages i_size =
           dmfs_parse_loop E sh pages (drop_bit sh i_size) (i_size AND (push_bit sh 1 - 1)) 0
             (emit Create_table (emit Get_free_page (init_state E)))"
  using assms by (simp add: dmfs_parse_def Let_def)

lemma sample_env_ok [simp]:
  "free_page_ok (sample_env cap)" "create_table_ok (sample_env cap)"
  "free_page_bytes (sample_env cap) = (\<lambda>_. NUL)"
  by (simp_all add: sample_env_def)

lemma loop_parse_error:
  assumes "pages index = Some pg" "pg_uptodate pg"
    and "dmfs_parse_page E sh (emit (Kmap index) (emit (Find_page index) st))
           (take (if index = end_index then unat end_offset else PAGE_SIZE sh) (pg_data pg)) =
           (rv, st')"
    and "rv \<noteq> 0"
  shows "dmfs_parse_loop E sh pages end_index end_offset index st =
           dmfs_parse_abort (''dmfs_parse: Parse error'' @ [NL]) st'"
  using assms by (subst dmfs_parse_loop.simps) (simp add: dmfs_parse_body_def Let_def)

lemma loop_next:
  assumes "pages index = Some pg" "pg_uptodate pg"
    and "dmfs_parse_page E sh (emit (Kmap index) (emit (Find_page index) st))
           (take (if index = end_index then unat end_offset else PAGE_SIZE sh) (pg_data pg)) =
           (0, st')"
  shows "dmfs_parse_loop E sh pages end_index end_offset index st =
           (if index + 1 \<noteq> end_index
            then dmfs_parse_loop E sh pages end_index end_offset (index + 1)
                   (emit (Page_cache_release (Some index)) st')
            else dmfs_parse_finish (emit (Page_cache_release (Some index)) st'))"
  using assms by (subst dmfs_parse_loop.simps) (simp add: dmfs_parse_body_def Let_def)

lemma loop_missing:
  assumes "pages index = None"
  shows "dmfs_parse_loop E sh pages end_index end_offset index st =
           (if \<not> release_null_returns E
            then (No_return, emit (Page_cache_release None) (emit (Find_page index) st))
            else if index + 1 \<noteq> end_index
            then dmfs_parse_loop E sh pages end_index end_offset (index + 1)
                   (emit (Page_cache_release None) (emit (Find_page index) st))
            else dmfs_parse_finish (emit (Page_cache_release None) (emit (Find_page index) st)))"
  using assms by (subst dmfs_parse_loop.simps) (simp add: dmfs_parse_body_def Let_def)

lemma loop_stale:
  assumes "pages index = Some pg" "\<not> pg_uptodate pg"
  shows "dmfs_parse_loop E sh pages end_index end_offset index st =
           dmfs_parse_abort (''dmfs_parse: Page not uptodate'' @ [NL]) (emit (Find_page index) st)"
  using assms by (subst dmfs_parse_loop.simps) (simp add: dmfs_parse_body_def Let_def)

subsection \<open>The driver\<close>

text \<open>
  C3. Take any pass through the loop of \<open>dmfs_parse\<close> whose page is there and up to
  date, and split its chunk as \<open>pre @ xs @ rest\<close>: \<open>pre\<close> is empty or a run of complete
  lines that \<open>dmfs_parse_page\<close> gets through, leaving the state \<open>st1\<close>, and \<open>xs\<close> has
  no newline and brings the fill of the scratch page to \<^verbatim>\<open>PAGE_SIZE - 1\<close>. Then
  \<open>dmfs_parse\<close> fails: the only error added is "Line too long" under the current line
  number, and the only calls that follow are the \<^verbatim>\<open>printk\<close>, \<^verbatim>\<open>free_page\<close> and
  \<^verbatim>\<open>dm_put_table\<close> of the label \<^verbatim>\<open>parse_error\<close>: neither \<open>rest\<close> nor a later page is
  looked at. (A page has at least two bytes.)
\<close>

theorem line_too_long:
  assumes "0 < sh"
    and "pages index = Some pg" "pg_uptodate pg"
    and "take (if index = end_index then unat end_offset else PAGE_SIZE sh) (pg_data pg) =
           pre @ xs @ rest"
    and "pre = [] \<and> st1 = emit (Kmap index) (emit (Find_page index) st) \<or>
         pre \<noteq> [] \<and> last pre = NL \<and>
           dmfs_parse_page E sh (emit (Kmap index) (emit (Find_page index) st)) pre = (0, st1)"
    and "NL \<notin> set xs" "rem st1 + length xs = PAGE_SIZE sh - 1"
  shows "dmfs_parse_loop E sh pages end_index end_offset index st =
           (Null,
            st1\<lparr>tmp := store (tmp st1) (rem st1) xs,
                errors := errors st1 @ [(num st1, ''Line too long'')],
                trace := trace st1 @
                  [Printk (''dmfs_parse: Parse error'' @ [NL]), Free_page, Put_table]\<rparr>)"
proof -
  define stk where "stk = emit (Kmap index) (emit (Find_page index) st)"
  have tl: "dmfs_parse_page E sh st1 (xs @ rest) =
      (- 1, st1\<lparr>tmp := store (tmp st1) (rem st1) xs,
                 errors := errors st1 @ [(num st1, ''Line too long'')]\<rparr>)"
    by (rule parse_page_too_long [OF assms(6,7)])
  have pp: "dmfs_parse_page E sh stk (pre @ xs @ rest) =
      (- 1, st1\<lparr>tmp := store (tmp st1) (rem st1) xs,
                 errors := errors st1 @ [(num st1, ''Line too long'')]\<rparr>)"
  proof (cases "pre = []")
    case True
    with assms(5) tl show ?thesis by (simp add: stk_def)
  next
    case False
    with assms(5) have pre: "last pre = NL" "dmfs_parse_page E sh stk pre = (0, st1)"
      by (simp_all add: stk_def)
    from parse_page_rem_zero [OF False pre] have "rem st1 = 0" .
    with assms(7) PAGE_SIZE_ge2 [OF assms(1)] have "xs @ rest \<noteq> []"
      by auto
    from parse_page_prefix [OF False pre(1) this, of E sh stk] pre(2) tl show ?thesis
      by simp
  qed
  show ?thesis
    using assms(2,3,4) pp
    by (subst dmfs_parse_loop.simps)
       (simp add: dmfs_parse_body_def dmfs_parse_abort_def stk_def Let_def emit_def)
qed


theorem line_too_long_witness:
  "(0::nat) < 12 \<and>
   only_page long_page 0 = Some long_page \<and>
   pg_uptodate long_page \<and>
   take (if (0::ulong) = 1 then unat (0::ulong) else PAGE_SIZE 12) (pg_data long_page) =
     [] @ replicate 4095 (CHR ''a'') @ [NL] \<and>
   ([] = ([]::char list) \<and>
      emit (Kmap 0) (emit (Find_page 0) (init_state (sample_env 8))) =
        emit (Kmap 0) (emit (Find_page 0) (init_state (sample_env 8))) \<or>
    [] \<noteq> ([]::char list) \<and> last [] = NL \<and>
      dmfs_parse_page (sample_env 8) 12
        (emit (Kmap 0) (emit (Find_page 0) (init_state (sample_env 8)))) [] =
        (0, emit (Kmap 0) (emit (Find_page 0) (init_state (sample_env 8))))) \<and>
   NL \<notin> set (replicate 4095 (CHR ''a'')) \<and>
   rem (emit (Kmap 0) (emit (Find_page 0) (init_state (sample_env 8)))) +
     length (replicate 4095 (CHR ''a'')) = PAGE_SIZE 12 - 1 \<and>
   dmfs_parse_loop (sample_env 8) 12 (only_page long_page) 1 0 0 (init_state (sample_env 8)) =
     (Null,
      (init_state (sample_env 8))
        \<lparr>tmp := store (\<lambda>_. NUL) 0 (replicate 4095 (CHR ''a'')),
         errors := [(0, ''Line too long'')],
         trace := [Find_page 0, Kmap 0, Printk (''dmfs_parse: Parse error'' @ [NL]),
                   Free_page, Put_table]\<rparr>)"
proof -
  let ?st = "init_state (sample_env 8)"
  let ?stk = "emit (Kmap 0) (emit (Find_page 0) ?st)"
  have 1: "(0::nat) < 12" by simp
  have 2: "only_page long_page 0 = Some long_page" by (simp add: only_page_def)
  have 3: "pg_uptodate long_page" by (simp add: long_page_def)
  have 4: "take (if (0::ulong) = 1 then unat (0::ulong) else PAGE_SIZE 12) (pg_data long_page) =
     [] @ replicate 4095 (CHR ''a'') @ [NL]"
    by (simp add: long_page_def PAGE_SIZE_def)
  have 5: "[] = ([]::char list) \<and> ?stk = ?stk \<or>
    [] \<noteq> ([]::char list) \<and> last [] = NL \<and>
      dmfs_parse_page (sample_env 8) 12 ?stk [] = (0, ?stk)"
    by simp
  have 6: "NL \<notin> set (replicate 4095 (CHR ''a''))" by (simp add: NL_def)
  have 7: "rem ?stk + length (replicate 4095 (CHR ''a'')) = PAGE_SIZE 12 - 1"
    by (simp add: emit_def init_state_def PAGE_SIZE_def)
  have c: "dmfs_parse_loop (sample_env 8) 12 (only_page long_page) 1 0 0 ?st =
     (Null,
      ?st\<lparr>tmp := store (\<lambda>_. NUL) 0 (replicate 4095 (CHR ''a'')),
         errors := [(0, ''Line too long'')],
         trace := [Find_page 0, Kmap 0, Printk (''dmfs_parse: Parse error'' @ [NL]),
                   Free_page, Put_table]\<rparr>)"
    using line_too_long [where pages = "only_page long_page" and index = 0 and st = ?st
        and E = "sample_env 8", OF 1 2 3 4 5 6 7]
    by (simp add: emit_def eval_sample del: store.simps)
  from 1 2 3 4 5 6 7 c show ?thesis
    by blast
qed

text \<open>
  C8, as stated, fails when the unterminated last line fills the scratch page: content
  of 4095 bytes without a newline is not handed to the line parser, but it does produce
  an error, "Line too long", and the parse fails on it.
\<close>

theorem trailing_line_counterexample:
  "take 4095 (pg_data unterminated_page) = replicate 4095 (CHR ''a'') \<and>
   NL \<notin> set (replicate 4095 (CHR ''a'')) \<and>
   dmfs_parse (sample_env 8) 12 (only_page unterminated_page) 4095 =
     (Null,
      (init_state (sample_env 8))
        \<lparr>tmp := store (\<lambda>_. NUL) 0 (replicate 4095 (CHR ''a'')),
         errors := [(0, ''Line too long'')],
         trace := [Get_free_page, Create_table, Find_page 0, Kmap 0,
                   Printk (''dmfs_parse: Parse error'' @ [NL]), Free_page, Put_table]\<rparr>)"
proof -
  let ?st = "emit (Kmap 0) (emit (Find_page 0) (emit Create_table (emit Get_free_page (init_state (sample_env 8)))))"
  have 1: "take 4095 (pg_data unterminated_page) = replicate 4095 (CHR ''a'')"
    by (simp add: unterminated_page_def)
  have 2: "NL \<notin> set (replicate 4095 (CHR ''a''))"
    by (simp add: NL_def)
  have "rem ?st + length (replicate 4095 (CHR ''a'')) = PAGE_SIZE 12 - 1"
    by (simp add: emit_def init_state_def PAGE_SIZE_def)
  from parse_page_too_long [OF 2 this, of "sample_env 8" "[]"]
  have pp: "dmfs_parse_page (sample_env 8) 12 ?st (replicate 4095 (CHR ''a'')) =
      (- 1, ?st\<lparr>tmp := store (tmp ?st) (rem ?st) (replicate 4095 (CHR ''a'')),
                 errors := errors ?st @ [(num ?st, ''Line too long'')]\<rparr>)"
    by simp
  have lp: "dmfs_parse_loop (sample_env 8) 12 (only_page unterminated_page) 0 4095 0
      (emit Create_table (emit Get_free_page (init_state (sample_env 8)))) =
      dmfs_parse_abort (''dmfs_parse: Parse error'' @ [NL])
        (?st\<lparr>tmp := store (tmp ?st) (rem ?st) (replicate 4095 (CHR ''a'')),
                 errors := errors ?st @ [(num ?st, ''Line too long'')]\<rparr>)"
    by (rule loop_parse_error [where pg = unterminated_page and rv = "- 1"])
       (simp_all add: only_page_def unterminated_page_def [THEN arg_cong [where f = pg_uptodate]]
          1 pp del: store.simps)
  have "dmfs_parse (sample_env 8) 12 (only_page unterminated_page) 4095 =
     (Null,
      (init_state (sample_env 8))
        \<lparr>tmp := store (\<lambda>_. NUL) 0 (replicate 4095 (CHR ''a'')),
         errors := [(0, ''Line too long'')],
         trace := [Get_free_page, Create_table, Find_page 0, Kmap 0,
                   Printk (''dmfs_parse: Parse error'' @ [NL]), Free_page, Put_table]\<rparr>)"
    by (simp add: dmfs_parse_start lp del: store.simps)
       (simp add: dmfs_parse_abort_def emit_def init_state_def del: store.simps)
  with 1 2 show ?thesis by blast
qed


text \<open>
  C8, amended. Let the chunk of a pass through the loop of \<open>dmfs_parse\<close> end in bytes
  \<open>t\<close> without a newline, behind a part \<open>c\<close> that is empty or ends in a newline, let
  \<open>t\<close> not fill the scratch page (with what the page holds already, if \<open>c\<close> is empty,
  it stays below \<^verbatim>\<open>PAGE_SIZE - 1\<close> bytes), and let no later page be in the page cache,
  so that \<open>t\<close> is the end of the input. Then the outcome is the one for the same
  page without \<open>t\<close>: the same result, table, errors, calls (so the same lines handed to
  the line parser) and line counter. The bytes \<open>t\<close> only stay behind in the scratch
  page, which nobody reads before it is freed.
\<close>

theorem trailing_line_not_parsed:
  assumes "pages index = Some pg" "pg_uptodate pg"
    and "take (if index = end_index then unat end_offset else PAGE_SIZE sh) (pg_data pg) = c @ t"
    and "NL \<notin> set t"
    and "c = [] \<and> rem st + length t < PAGE_SIZE sh - 1 \<or>
         c \<noteq> [] \<and> last c = NL \<and> length t < PAGE_SIZE sh - 1"
    and "rest_missing pages index end_index"
  shows "observable (dmfs_parse_loop E sh pages end_index end_offset index st) =
         observable (dmfs_parse_loop E sh (pages(index := Some (pg\<lparr>pg_data := c\<rparr>)))
                       end_index end_offset index st)"
proof -
  define stk where "stk = emit (Kmap index) (emit (Find_page index) st)"
  define n where "n = (if index = end_index then unat end_offset else PAGE_SIZE sh)"
  define pages' where "pages' = pages(index := Some (pg\<lparr>pg_data := c\<rparr>))"
  from assms(3) have "length (c @ t) \<le> n"
    unfolding n_def [symmetric] by (metis length_take min.cobounded2)
  then have tc: "take n c = c"
    by simp
  obtain rv s' where r: "dmfs_parse_page E sh stk c = (rv, s')"
    by (cases "dmfs_parse_page E sh stk c") auto
  have "\<exists>a b. dmfs_parse_page E sh stk (c @ t) = (rv, s'\<lparr>tmp := a, rem := b\<rparr>)"
  proof (cases "c = []")
    case True
    with assms(5) have len: "rem stk + length t < PAGE_SIZE sh - 1"
      by (simp add: stk_def emit_def)
    then have "rem stk + length ([]::char list) < PAGE_SIZE sh - 1"
      by simp
    from parse_page_partial [OF _ this, of E] r True
    have "rv = 0" "s' = stk\<lparr>tmp := tmp stk, rem := 0\<rparr>"
      by simp_all
    with parse_page_partial [OF assms(4) len, of E] True
    have "dmfs_parse_page E sh stk (c @ t) =
        (rv, s'\<lparr>tmp := store (tmp stk) (rem stk) t, rem := length t\<rparr>)"
      by simp
    then show ?thesis by blast
  next
    case False
    with assms(5) have c: "last c = NL" "length t < PAGE_SIZE sh - 1"
      by simp_all
    show ?thesis
    proof (cases "t = []")
      case True
      with r have "dmfs_parse_page E sh stk (c @ t) = (rv, s'\<lparr>tmp := tmp s', rem := rem s'\<rparr>)"
        by simp
      then show ?thesis by blast
    next
      case ne: False
      note pre = parse_page_prefix [OF False c(1) ne, of E sh stk]
      show ?thesis
      proof (cases "rv = 0")
        case True
        with r parse_page_rem_zero [OF False c(1)] have "rem s' = 0"
          by simp
        with c(2) have "rem s' + length t < PAGE_SIZE sh - 1"
          by simp
        from parse_page_partial [OF assms(4) this, of E] pre r True
        have "dmfs_parse_page E sh stk (c @ t) =
            (rv, s'\<lparr>tmp := store (tmp s') (rem s') t, rem := length t\<rparr>)"
          by simp
        then show ?thesis by blast
      next
        case nz: False
        with pre r have "dmfs_parse_page E sh stk (c @ t) = (rv, s'\<lparr>tmp := tmp s', rem := rem s'\<rparr>)"
          by simp
        then show ?thesis by blast
      qed
    qed
  qed
  then obtain a b where l: "dmfs_parse_page E sh stk (c @ t) = (rv, s'\<lparr>tmp := a, rem := b\<rparr>)"
    by blast
  define s'' where "s'' = emit (Page_cache_release (Some index)) s'"
  have L: "dmfs_parse_loop E sh pages end_index end_offset index st =
      (if rv \<noteq> 0 then dmfs_parse_abort (''dmfs_parse: Parse error'' @ [NL]) (s'\<lparr>tmp := a, rem := b\<rparr>)
       else if index + 1 \<noteq> end_index
       then dmfs_parse_loop E sh pages end_index end_offset (index + 1) (s''\<lparr>tmp := a, rem := b\<rparr>)
       else dmfs_parse_finish (s''\<lparr>tmp := a, rem := b\<rparr>))"
    using assms(1,2,3) l
    by (subst dmfs_parse_loop.simps)
       (simp add: dmfs_parse_body_def stk_def n_def s''_def emit_scratch Let_def)
  have R: "dmfs_parse_loop E sh pages' end_index end_offset index st =
      (if rv \<noteq> 0 then dmfs_parse_abort (''dmfs_parse: Parse error'' @ [NL]) s'
       else if index + 1 \<noteq> end_index
       then dmfs_parse_loop E sh pages' end_index end_offset (index + 1) s''
       else dmfs_parse_finish s'')"
    using assms(2) r tc
    by (subst dmfs_parse_loop.simps)
       (simp add: dmfs_parse_body_def stk_def n_def s''_def pages'_def Let_def)
  have sk: "observable (dmfs_parse_loop E sh pages end_index end_offset (index + 1) (s''\<lparr>tmp := a, rem := b\<rparr>)) =
      observable (dmfs_parse_loop E sh pages' end_index end_offset (index + 1) s'')"
    if "index + 1 \<noteq> end_index"
  proof (rule loop_skip_missing [OF that])
    show "\<forall>i. i - (index + 1) < end_index - (index + 1) \<longrightarrow> pages i = None \<and> pages' i = None"
      using assms(6) index_dist_self [of index] by (auto simp: rest_missing_def pages'_def)
  qed
  show ?thesis
    unfolding pages'_def [symmetric] L R
    using sk by (simp add: observable_finish_scratch observable_abort_scratch)
qed


theorem trailing_line_not_parsed_witness:
  "only_page short_page 0 = Some short_page \<and>
   pg_uptodate short_page \<and>
   take (if (0::ulong) = 0 then unat (25::ulong) else PAGE_SIZE 12) (pg_data short_page) =
     (''0 8 linear /dev/a'' @ [NL]) @ ''8 8 lin'' \<and>
   NL \<notin> set ''8 8 lin'' \<and>
   (''0 8 linear /dev/a'' @ [NL] = [] \<and>
      rem (init_state (sample_env 8)) + length ''8 8 lin'' < PAGE_SIZE 12 - 1 \<or>
    ''0 8 linear /dev/a'' @ [NL] \<noteq> [] \<and> last (''0 8 linear /dev/a'' @ [NL]) = NL \<and>
      length ''8 8 lin'' < PAGE_SIZE 12 - 1) \<and>
   rest_missing (only_page short_page) 0 0 \<and>
   observable (dmfs_parse_loop (sample_env 8) 12 (only_page short_page) 0 25 0
                 (init_state (sample_env 8))) =
   observable (dmfs_parse_loop (sample_env 8) 12
                 ((only_page short_page)
                    (0 := Some (short_page\<lparr>pg_data := ''0 8 linear /dev/a'' @ [NL]\<rparr>)))
                 0 25 0 (init_state (sample_env 8)))"
proof -
  have 1: "only_page short_page 0 = Some short_page"
    by (simp add: only_page_def)
  have 2: "pg_uptodate short_page"
    by (simp add: short_page_def)
  have 3: "take (if (0::ulong) = 0 then unat (25::ulong) else PAGE_SIZE 12) (pg_data short_page) =
     (''0 8 linear /dev/a'' @ [NL]) @ ''8 8 lin''"
    by (simp add: short_page_def)
  have 4: "NL \<notin> set ''8 8 lin''"
    by (simp add: NL_def)
  have 5: "''0 8 linear /dev/a'' @ [NL] = [] \<and>
      rem (init_state (sample_env 8)) + length ''8 8 lin'' < PAGE_SIZE 12 - 1 \<or>
    ''0 8 linear /dev/a'' @ [NL] \<noteq> [] \<and> last (''0 8 linear /dev/a'' @ [NL]) = NL \<and>
      length ''8 8 lin'' < PAGE_SIZE 12 - 1"
    by (simp add: PAGE_SIZE_def)
  note 6 = rest_missing_only_page [of short_page]
  note c = trailing_line_not_parsed [where pages = "only_page short_page" and index = 0
      and E = "sample_env 8" and st = "init_state (sample_env 8)", OF 1 2 3 4 5 6]
  from 1 2 3 4 5 6 c show ?thesis
    by blast
qed

text \<open>
  C9, as stated, fails. A page that is in the page cache but not up to date makes
  \<open>dmfs_parse\<close> log "Page not uptodate", drop the table and return NULL. And a missing
  page is not read as zero bytes: a page that really holds 4096 zero bytes ends the
  parse with "Line too long", a missing page in its place records no error.
\<close>

theorem stale_page_counterexample:
  "only_page stale_page 0 = Some stale_page \<and>
   dmfs_parse (sample_env 8) 12 (only_page stale_page) 4096 =
     (Null,
      (init_state (sample_env 8))
        \<lparr>trace := [Get_free_page, Create_table, Find_page 0,
                   Printk (''dmfs_parse: Page not uptodate'' @ [NL]), Free_page, Put_table]\<rparr>) \<and>
   errors (snd (dmfs_parse (sample_env 8) 12 (only_page zero_page) 4096)) =
     [(0, ''Line too long'')] \<and>
   errors (snd (dmfs_parse (sample_env 8) 12 no_pages 4096)) = []"
proof -
  let ?s0 = "emit Create_table (emit Get_free_page (init_state (sample_env 8)))"
  let ?st = "emit (Kmap 0) (emit (Find_page 0) ?s0)"
  have 1: "only_page stale_page 0 = Some stale_page"
    by (simp add: only_page_def)
  have st: "\<not> pg_uptodate stale_page"
    by (simp add: stale_page_def)
  have 2: "dmfs_parse (sample_env 8) 12 (only_page stale_page) 4096 =
     (Null,
      (init_state (sample_env 8))
        \<lparr>trace := [Get_free_page, Create_table, Find_page 0,
                   Printk (''dmfs_parse: Page not uptodate'' @ [NL]), Free_page, Put_table]\<rparr>)"
    by (simp add: dmfs_parse_start loop_stale [where pages = "only_page stale_page" and index = 0, OF 1 st])
       (simp add: dmfs_parse_abort_def emit_def init_state_def)
  have z: "replicate 4096 NUL = replicate 4095 NUL @ [NUL]"
    using replicate_add [of 4095 1 NUL] by simp
  have nl: "NL \<notin> set (replicate 4095 NUL)"
    by (simp add: NL_def NUL_def)
  have "rem ?st + length (replicate 4095 NUL) = PAGE_SIZE 12 - 1"
    by (simp add: emit_def init_state_def PAGE_SIZE_def)
  from parse_page_too_long [OF nl this, of "sample_env 8" "[NUL]"]
  have pp: "dmfs_parse_page (sample_env 8) 12 ?st (replicate 4096 NUL) =
      (- 1, ?st\<lparr>tmp := store (tmp ?st) (rem ?st) (replicate 4095 NUL),
                 errors := errors ?st @ [(num ?st, ''Line too long'')]\<rparr>)"
    by (simp only: z)
  have lp: "dmfs_parse_loop (sample_env 8) 12 (only_page zero_page) 1 0 0 ?s0 =
      dmfs_parse_abort (''dmfs_parse: Parse error'' @ [NL])
        (?st\<lparr>tmp := store (tmp ?st) (rem ?st) (replicate 4095 NUL),
                 errors := errors ?st @ [(num ?st, ''Line too long'')]\<rparr>)"
    by (rule loop_parse_error [where pg = zero_page and rv = "- 1"])
       (simp_all add: only_page_def zero_page_def PAGE_SIZE_def pp [unfolded PAGE_SIZE_def]
          del: store.simps)
  have 3: "errors (snd (dmfs_parse (sample_env 8) 12 (only_page zero_page) 4096)) =
     [(0, ''Line too long'')]"
    by (simp add: dmfs_parse_start lp del: store.simps)
       (simp add: dmfs_parse_abort_def emit_def init_state_def del: store.simps)
  have 4: "errors (snd (dmfs_parse (sample_env 8) 12 no_pages 4096)) = []"
    by (simp add: dmfs_parse_start loop_missing no_pages_def)
       (simp add: sample_env_def emit_def init_state_def)
  from 1 2 3 4 show ?thesis by blast
qed

text \<open>
  C9, amended. A page that is there but not up to date ends the parse: the message
  "Page not uptodate" is logged, the scratch page freed, the table dropped and NULL
  returned. For a page that is missing from the page cache the pass makes two calls and
  no other: the lookup, and \<^verbatim>\<open>page_cache_release\<close> on the NULL pointer. So no byte of
  the region reaches the assembler, neither its content nor zeros, no line is parsed
  and no error is recorded. Whether the parse goes on after that is the answer of
  \<^verbatim>\<open>page_cache_release\<close> to NULL: if the call comes back, the loop goes on with the next
  index, or to the code behind the loop if this was the last pass; if it does not,
  \<open>dmfs_parse\<close> does not return.
\<close>

theorem stale_page_aborts_missing_page_not_read:
  assumes "pages index = None \<or> (\<exists>pg. pages index = Some pg \<and> \<not> pg_uptodate pg)"
  shows "dmfs_parse_loop E sh pages end_index end_offset index st =
           (case pages index of
              None \<Rightarrow>
                if \<not> release_null_returns E
                then (No_return,
                      st\<lparr>trace := trace st @ [Find_page index, Page_cache_release None]\<rparr>)
                else if index + 1 \<noteq> end_index
                then dmfs_parse_loop E sh pages end_index end_offset (index + 1)
                       (st\<lparr>trace := trace st @ [Find_page index, Page_cache_release None]\<rparr>)
                else dmfs_parse_finish
                       (st\<lparr>trace := trace st @ [Find_page index, Page_cache_release None]\<rparr>)
            | Some pg \<Rightarrow>
                (Null,
                 st\<lparr>trace := trace st @
                      [Find_page index, Printk (''dmfs_parse: Page not uptodate'' @ [NL]),
                       Free_page, Put_table]\<rparr>))"
proof (cases "pages index")
  case None
  then show ?thesis
    by (simp add: loop_missing emit_def)
next
  case (Some pg)
  with assms have "\<not> pg_uptodate pg"
    by auto
  from loop_stale [where pages = pages and index = index, OF Some this] Some show ?thesis
    by (simp add: dmfs_parse_abort_def emit_def)
qed

theorem stale_page_aborts_missing_page_not_read_witness:
  "(no_pages 0 = None \<or> (\<exists>pg. no_pages 0 = Some pg \<and> \<not> pg_uptodate pg)) \<and>
   \<not> release_null_returns (sample_env 8) \<and>
   dmfs_parse_loop (sample_env 8) 12 no_pages 1 0 0 (init_state (sample_env 8)) =
     (No_return,
      (init_state (sample_env 8))\<lparr>trace := [Find_page 0, Page_cache_release None]\<rparr>)"
proof -
  have 1: "no_pages 0 = None \<or> (\<exists>pg. no_pages 0 = Some pg \<and> \<not> pg_uptodate pg)"
    by (simp add: no_pages_def)
  have 2: "no_pages 0 = None"
    by (simp add: no_pages_def)
  have 3: "\<not> release_null_returns (sample_env 8)"
    by (simp add: sample_env_def)
  have "dmfs_parse_loop (sample_env 8) 12 no_pages 1 0 0 (init_state (sample_env 8)) =
     (No_return,
      (init_state (sample_env 8))\<lparr>trace := [Find_page 0, Page_cache_release None]\<rparr>)"
    using stale_page_aborts_missing_page_not_read [where pages = no_pages and index = 0
        and end_index = 1 and end_offset = 0 and E = "sample_env 8" and sh = 12
        and st = "init_state (sample_env 8)", OF 1]
    by (simp add: 2 3 init_state_def)
  with 1 3 show ?thesis by blast
qed

text \<open>
  C4 does not hold for \<open>dmfs_parse\<close>. For the file of 4115 bytes, \<^verbatim>\<open>end_index\<close> is 1 and
  \<^verbatim>\<open>end_offset\<close> is 19. The loop parses page 0, increments \<^verbatim>\<open>index\<close> to 1 and leaves,
  since \<^verbatim>\<open>index != end_index\<close> is false: page 1 is neither looked up nor mapped, its line
  "16 8 linear /dev/c" never reaches the line parser, and a table with two targets
  instead of three is returned.
\<close>

theorem last_chunk_not_read:
  "length (line_a @ [NL] @ line_b @ [NL]) = 4096 \<and>
   dmfs_parse (sample_env 8) 12 two_pages 4115 =
     (Table,
      (init_state (sample_env 8))
        \<lparr>num_targets := 2, highs := (\<lambda>_. 0)(0 := 7, 1 := 15),
         trace :=
           [Get_free_page, Create_table, Find_page 0, Kmap 0,
            Parse_line 0 line_a, Get_target_type ''linear'',
            Ctr ''linear'' 0 8 (Some (''/dev/a'' @ replicate 2030 (CHR '' ''))),
            Add_target 7 ''linear'' 1,
            Parse_line 1 line_b, Get_target_type ''linear'',
            Ctr ''linear'' 8 8 (Some (''/dev/b'' @ replicate 2030 (CHR '' ''))),
            Add_target 15 ''linear'' 1,
            Page_cache_release (Some 0), Free_page, Table_complete],
         tmp := store (store (\<lambda>_. NUL) 0 (line_a @ [NUL])) 0 (line_b @ [NUL]),
         num := 2\<rparr>)"
proof -
  let ?E = "sample_env 8"
  let ?s0 = "emit Create_table (emit Get_free_page (init_state ?E))"
  let ?st = "emit (Kmap 0) (emit (Find_page 0) ?s0)"
  have len: "length line_a = 2047" "length line_b = 2047"
    by (simp_all add: line_a_def line_b_def)
  have nl: "NL \<notin> set line_a" "NL \<notin> set line_b"
    by (simp_all add: line_a_def line_b_def NL_def)
  have nul: "NUL \<notin> set line_a" "NUL \<notin> set line_b"
    by (simp_all add: line_a_def line_b_def NUL_def)
  have 1: "length (line_a @ [NL] @ line_b @ [NL]) = 4096"
    by (simp add: len)
  have r0: "rem ?st = 0" "num ?st = 0"
    by (simp_all add: emit_def init_state_def)
  define sa where "sa = after_line ?E 12 ?st line_a"
  have sa: "sa = (init_state ?E)
        \<lparr>num_targets := 1, highs := (\<lambda>_. 0)(0 := 7),
         trace :=
           [Get_free_page, Create_table, Find_page 0, Kmap 0,
            Parse_line 0 line_a, Get_target_type ''linear'',
            Ctr ''linear'' 0 8 (Some (''/dev/a'' @ replicate 2030 (CHR '' ''))),
            Add_target 7 ''linear'' 1],
         tmp := store (\<lambda>_. NUL) 0 (line_a @ [NUL]),
         num := 1\<rparr>"
    unfolding sa_def
    apply (subst after_line_fresh)
       apply (simp_all add: r0 len nul PAGE_SIZE_def)
    apply (simp add: line_a_def eval_line eval_sample del: store.simps)
    done
  have ra: "rem sa = 0" "num sa = 1" "tmp sa = store (\<lambda>_. NUL) 0 (line_a @ [NUL])"
    by (simp_all add: sa init_state_def del: store.simps)
  define sb where "sb = after_line ?E 12 sa line_b"
  have sb: "sb = (init_state ?E)
        \<lparr>num_targets := 2, highs := (\<lambda>_. 0)(0 := 7, 1 := 15),
         trace :=
           [Get_free_page, Create_table, Find_page 0, Kmap 0,
            Parse_line 0 line_a, Get_target_type ''linear'',
            Ctr ''linear'' 0 8 (Some (''/dev/a'' @ replicate 2030 (CHR '' ''))),
            Add_target 7 ''linear'' 1,
            Parse_line 1 line_b, Get_target_type ''linear'',
            Ctr ''linear'' 8 8 (Some (''/dev/b'' @ replicate 2030 (CHR '' ''))),
            Add_target 15 ''linear'' 1],
         tmp := store (store (\<lambda>_. NUL) 0 (line_a @ [NUL])) 0 (line_b @ [NUL]),
         num := 2\<rparr>"
    unfolding sb_def
    apply (subst after_line_fresh)
       apply (simp_all add: ra len nul PAGE_SIZE_def del: store.simps)
    apply (simp add: sa line_b_def eval_line eval_sample del: store.simps)
    done
  have pa: "dmfs_parse_page ?E 12 ?st (line_a @ NL # line_b @ [NL]) =
      dmfs_parse_page ?E 12 sa (line_b @ [NL])"
    using parse_page_line [OF nl(1), of ?st 12 ?E "line_b @ [NL]"]
    by (simp add: r0 len PAGE_SIZE_def sa_def)
  have pb: "dmfs_parse_page ?E 12 sa (line_b @ [NL]) = (0, sb)"
    using parse_page_line [OF nl(2), of sa 12 ?E "[]"]
    by (simp add: ra len PAGE_SIZE_def sb_def)
  have lp: "dmfs_parse_loop ?E 12 two_pages 1 19 0 ?s0 =
      dmfs_parse_finish (emit (Page_cache_release (Some 0)) sb)"
    using loop_next [where pages = two_pages and index = 0 and E = ?E and sh = 12 and st = ?s0
        and end_index = 1 and end_offset = 19
        and pg = "\<lparr>pg_uptodate = True, pg_data = line_a @ [NL] @ line_b @ [NL]\<rparr>" and st' = sb]
    by (simp add: two_pages_def PAGE_SIZE_def len pa pb)
  have "dmfs_parse ?E 12 two_pages 4115 = dmfs_parse_finish (emit (Page_cache_release (Some 0)) sb)"
    by (simp add: dmfs_parse_start lp)
  then have 2: "dmfs_parse ?E 12 two_pages 4115 =
     (Table,
      (init_state (sample_env 8))
        \<lparr>num_targets := 2, highs := (\<lambda>_. 0)(0 := 7, 1 := 15),
         trace :=
           [Get_free_page, Create_table, Find_page 0, Kmap 0,
            Parse_line 0 line_a, Get_target_type ''linear'',
            Ctr ''linear'' 0 8 (Some (''/dev/a'' @ replicate 2030 (CHR '' ''))),
            Add_target 7 ''linear'' 1,
            Parse_line 1 line_b, Get_target_type ''linear'',
            Ctr ''linear'' 8 8 (Some (''/dev/b'' @ replicate 2030 (CHR '' ''))),
            Add_target 15 ''linear'' 1,
            Page_cache_release (Some 0), Free_page, Table_complete],
         tmp := store (store (\<lambda>_. NUL) 0 (line_a @ [NUL])) 0 (line_b @ [NUL]),
         num := 2\<rparr>)"
    by (simp add: sb dmfs_parse_finish_def dm_table_complete_def emit_def init_state_def Let_def
        del: store.simps)
  from 1 2 show ?thesis by blast
qed

text \<open>
  C10. With \<^verbatim>\<open>i_size == 0\<close>, \<open>dmfs_parse\<close> returns NULL at once: the state is the initial
  one, in which no call has been made (no page allocated, no table created, no page
  looked up, no line parsed, no constructor run), no error is recorded and the table
  has no target.
\<close>

theorem empty_content_fails_at_once:
  "dmfs_parse E sh pages 0 = (Null, init_state E) \<and>
   trace (init_state E) = [] \<and> errors (init_state E) = [] \<and> num_targets (init_state E) = 0"
  by (simp add: dmfs_parse_def init_state_def)

end
